theory Spec2Isabelle
  imports Main
begin

section \<open>Text values\<close>

text \<open>
  Python strings are modelled as \<open>string\<close>. Case folding and white space are
  those of the ASCII range; characters outside it are left as they are.
\<close>

text \<open>An upper-case letter and its lower-case letter differ in one bit (value 32).\<close>

fun char_lower :: "char \<Rightarrow> char" where
  "char_lower (Char b0 b1 b2 b3 b4 b5 b6 b7) =
     (let n = (of_char (Char b0 b1 b2 b3 b4 b5 b6 b7) :: nat)
      in if 65 \<le> n \<and> n \<le> 90 then Char b0 b1 b2 b3 b4 True b6 b7
         else Char b0 b1 b2 b3 b4 b5 b6 b7)"

definition str_lower :: "string \<Rightarrow> string" where
  "str_lower s = map char_lower s"

text \<open>\<open>s.replace(a, b)\<close> for a one-character pattern \<open>a\<close>.\<close>

definition str_replace :: "char \<Rightarrow> char \<Rightarrow> string \<Rightarrow> string" where
  "str_replace a b s = map (\<lambda>c. if c = a then b else c) s"

definition isspace :: "char \<Rightarrow> bool" where
  "isspace c = (let n = (of_char c :: nat) in (9 \<le> n \<and> n \<le> 13) \<or> (28 \<le> n \<and> n \<le> 32))"

definition str_strip :: "string \<Rightarrow> string" where
  "str_strip s = rev (dropWhile isspace (rev (dropWhile isspace s)))"

text \<open>\<open>str(n)\<close> for a Python integer: its decimal digits, with a sign when negative.\<close>

fun digitos :: "nat \<Rightarrow> string" where
  "digitos n =
     (if n < 10 then [''0123456789'' ! n] else digitos (n div 10) @ [''0123456789'' ! (n mod 10)])"

declare digitos.simps [simp del]

definition str_int :: "int \<Rightarrow> string" where
  "str_int i = (if i < 0 then CHR ''-'' # digitos (nat (- i)) else digitos (nat i))"

section \<open>Tables (pandas DataFrame)\<close>

text \<open>
  A table has a list of named, typed columns and a list of rows. Only the distinction
  between the \<open>object\<close> dtype (text columns) and every other dtype matters to the
  program. A cell is a missing value (\<open>NaN\<close>, as the readers produce it), a string or
  a number. Column labels are strings.
\<close>

datatype dtype = ObjectDtype | NumericDtype

datatype cell = NaN | Str string | Num int

record data_frame =
  esquema :: "(string \<times> dtype) list"
  filas :: "cell list list"

definition columns :: "data_frame \<Rightarrow> string list" where
  "columns df = map fst (esquema df)"



text \<open>\<open>df.empty\<close>: some axis has length zero.\<close>

definition df_empty :: "data_frame \<Rightarrow> bool" where
  "df_empty df = (esquema df = [] \<or> filas df = [])"

definition isnull :: "cell \<Rightarrow> bool" where
  "isnull c = (c = NaN)"

text \<open>\<open>df.isnull().sum().sum()\<close>: the number of missing cells of the table.\<close>

definition contar_nulos :: "data_frame \<Rightarrow> nat" where
  "contar_nulos df = sum_list (map (\<lambda>r. length (filter isnull r)) (filas df))"

text \<open>
  \<open>df.duplicated()\<close> (keep=first): a row is marked when an equal row stands before it.
  The library answers with an empty mask for an empty table.
\<close>

fun marcar_duplicadas :: "'a list \<Rightarrow> 'a list \<Rightarrow> bool list" where
  "marcar_duplicadas vistas [] = []"
| "marcar_duplicadas vistas (r # rs) = (r \<in> set vistas) # marcar_duplicadas (r # vistas) rs"

definition duplicated :: "data_frame \<Rightarrow> bool list" where
  "duplicated df = (if df_empty df then [] else marcar_duplicadas [] (filas df))"

definition contar_duplicadas :: "data_frame \<Rightarrow> nat" where
  "contar_duplicadas df = length (filter id (duplicated df))"

text \<open>
  \<open>df.drop_duplicates()\<close>: the rows that \<open>duplicated\<close> does not mark, in their order;
  an empty table is returned as it is.
\<close>

definition drop_duplicates :: "data_frame \<Rightarrow> data_frame" where
  "drop_duplicates df =
     (if df_empty df then df
      else df\<lparr>filas := map fst (filter (\<lambda>(r, m). \<not> m) (zip (filas df) (duplicated df)))\<rparr>)"

text \<open>\<open>df.select_dtypes(include="object").columns\<close>\<close>

definition select_dtypes_object :: "data_frame \<Rightarrow> string list" where
  "select_dtypes_object df = map fst (filter (\<lambda>(n, t). t = ObjectDtype) (esquema df))"

text \<open>\<open>astype(str)\<close> on one cell: \<open>str\<close> of the value; \<open>str(nan)\<close> is \<open>"nan"\<close>.\<close>

fun astype_str :: "cell \<Rightarrow> cell" where
  "astype_str NaN = Str ''nan''"
| "astype_str (Str s) = Str s"
| "astype_str (Num n) = Str (str_int n)"

text \<open>\<open>.str.strip()\<close> on one cell: missing values and non-strings give a missing value.\<close>

fun cell_strip :: "cell \<Rightarrow> cell" where
  "cell_strip (Str s) = Str (str_strip s)"
| "cell_strip _ = NaN"

text \<open>The position of the first column with a given label.\<close>

fun indice :: "string \<Rightarrow> string list \<Rightarrow> nat" where
  "indice c [] = 0"
| "indice c (x # xs) = (if x = c then 0 else Suc (indice c xs))"

text \<open>\<open>df[c]\<close> for a label that occurs once: the cells of that column.\<close>

definition obtener_columna :: "string \<Rightarrow> data_frame \<Rightarrow> cell list" where
  "obtener_columna c df = map (\<lambda>r. r ! indice c (columns df)) (filas df)"

text \<open>\<open>df.loc[:, c] = valores\<close> for a label that occurs once.\<close>

definition asignar_columna :: "string \<Rightarrow> cell list \<Rightarrow> data_frame \<Rightarrow> data_frame" where
  "asignar_columna c valores df =
     df\<lparr>filas := map (\<lambda>(r, v). r[indice c (columns df) := v]) (zip (filas df) valores)\<rparr>"

text \<open>
  Assigning \<open>df.columns\<close> the labels in lower case, with spaces and hyphens replaced
  by underscores.
\<close>

definition normalizar_nombre :: "string \<Rightarrow> string" where
  "normalizar_nombre s = str_replace CHR ''-'' CHR ''_'' (str_replace CHR '' '' CHR ''_'' (str_lower s))"

definition normalizar_columnas :: "data_frame \<Rightarrow> data_frame" where
  "normalizar_columnas df = df\<lparr>esquema := map (\<lambda>(n, t). (normalizar_nombre n, t)) (esquema df)\<rparr>"

section \<open>Exceptions, printed lines and results\<close>

datatype excepcion =
    TypeError | ValueError | AttributeError | KeyError
  | FileNotFoundError | PermissionError | UnicodeDecodeError | OtraExcepcion

text \<open>
  The lines a method prints, one constructor per \<open>print\<close> statement, with the values
  it interpolates. The blocks of the information displays are one constructor each.
\<close>

datatype mensaje =
    MsgValoresFaltantes nat
  | MsgFilasDuplicadas nat
  | MsgDatasetVacio
  | MsgValidacionCompletada
  | MsgNoHayDatosParaProcesar
  | MsgIniciandoLimpieza
  | MsgTransformacionesAplicadas
  | MsgColumnasNormalizadas nat
  | MsgFilasEliminadas nat
  | MsgColumnasTextoLimpiadas nat
  | MsgNoHayDatosParaInformacion
  | MsgInformacionDataset string nat nat
  | MsgNoHayDatosParaResumen
  | MsgResumenEstadistico
  | MsgColumnasFaltantes "string list"
  | MsgColumnasPresentes
  | MsgIniciandoCargaCSV string
  | MsgExtensionCSVNoReconocida string
  | MsgDetectandoCodificacion
  | MsgCodificacionDetectada "string option" nat
  | MsgNoSePudoDetectarCodificacion excepcion
  | MsgUsandoCodificacionPorDefecto
  | MsgDetectandoSeparador
  | MsgSeparadorDetectado string
  | MsgNoSePudoDetectarSeparador excepcion
  | MsgUsandoSeparadorPorDefecto
  | MsgErrorLeerCSV excepcion
  | MsgCSVCargado "string option" "string option" nat nat
  | MsgNoSePudieronCargarCSV
  | MsgIniciandoCargaExcel string
  | MsgExtensionExcelNoReconocida string
  | MsgHojasDisponibles "string list"
  | MsgNoSePudieronObtenerHojas excepcion
  | MsgHojaNoExiste string
  | MsgErrorLeerExcel excepcion
  | MsgExcelCargado "string option" nat nat
  | MsgNoSePudieronCargarExcel
  | MsgArchivoNoEncontrado string
  | MsgSinPermisos string
  | MsgErrorCodificacion excepcion
  | MsgSugerenciaCodificacion
  | MsgErrorInesperado excepcion
  | MsgAplicandoCambios "string list"
  | MsgSinCambios
  | MsgNoHayInformacionHojas
  | MsgCambiarHojaNoExiste string "string list"
  | MsgCambiandoHoja "string option" string
  | MsgInformacionArchivoCSV string "string option" "string option"
  | MsgInformacionHojas "string list" "string option"
  | MsgNoHayDatosParaExportar
  | MsgArchivoExportado string
  | MsgErrorExportar excepcion
  | MsgNoHayDatosParaPrevisualizar
  | MsgPrevisualizacion nat

text \<open>
  What a method call gives: the exception it raises (\<open>Inl\<close>) or the value it returns
  (\<open>Inr\<close>), the object after the call, and the lines printed.
\<close>

type_synonym ('a, 's) efecto = "(excepcion + 'a) \<times> 's \<times> mensaje list"

section \<open>The abstract class Dataset\<close>

record dataset =
  ruta_archivo :: string
  dataframe :: "data_frame option"
  esta_cargado :: bool

definition Dataset_init :: "string \<Rightarrow> dataset" where
  "Dataset_init ruta = \<lparr>ruta_archivo = ruta, dataframe = None, esta_cargado = False\<rparr>"

text \<open>The values a caller may assign to the \<open>dataframe\<close> property.\<close>

datatype py_value =
    PyNone | PyDataFrame data_frame | PyInt int | PyStr string | PyList "py_value list"

fun es_DataFrame :: "py_value \<Rightarrow> bool" where
  "es_DataFrame (PyDataFrame df) = True"
| "es_DataFrame _ = False"

fun como_DataFrame :: "py_value \<Rightarrow> data_frame option" where
  "como_DataFrame (PyDataFrame df) = Some df"
| "como_DataFrame _ = None"

definition dataframe_setter :: "py_value \<Rightarrow> 'a dataset_scheme \<Rightarrow> (unit, 'a dataset_scheme) efecto" where
  "dataframe_setter nuevo_dataframe d =
     (if nuevo_dataframe \<noteq> PyNone \<and> \<not> es_DataFrame nuevo_dataframe then (Inl TypeError, d, [])
      else (Inr (), d\<lparr>dataframe := como_DataFrame nuevo_dataframe,
                      esta_cargado := (nuevo_dataframe \<noteq> PyNone)\<rparr>, []))"

text \<open>
  In the methods below, reading an attribute of the table when the \<open>dataframe\<close> slot
  holds \<open>None\<close> raises \<open>AttributeError\<close>, as it does in Python.
\<close>

definition validar_integridad_datos :: "'a dataset_scheme \<Rightarrow> (bool, 'a dataset_scheme) efecto" where
  "validar_integridad_datos d =
     (if \<not> esta_cargado d then (Inl ValueError, d, [])
      else case dataframe d of
        None \<Rightarrow> (Inl AttributeError, d, [])
      | Some df \<Rightarrow>
          let valores_nulos = contar_nulos df;
              p1 = (if valores_nulos > 0 then [MsgValoresFaltantes valores_nulos] else []);
              filas_duplicadas = contar_duplicadas df;
              p2 = (if filas_duplicadas > 0 then [MsgFilasDuplicadas filas_duplicadas] else []);
              p3 = (if length (filas df) = 0 then [MsgDatasetVacio] else []);
              problemas_encontrados = p1 @ p2 @ p3
          in (Inr (length problemas_encontrados = 0), d,
              problemas_encontrados
                @ (if problemas_encontrados = [] then [MsgValidacionCompletada] else [])))"

text \<open>
  The loop over the text columns. \<open>df[c]\<close> is a column when the label \<open>c\<close> occurs
  once; when it occurs several times it is a table, which has no \<open>.str\<close>, and the
  statement raises \<open>AttributeError\<close> with the columns before it already trimmed.
\<close>

fun limpiar_columnas_texto :: "string list \<Rightarrow> data_frame \<Rightarrow> excepcion option \<times> data_frame" where
  "limpiar_columnas_texto [] df = (None, df)"
| "limpiar_columnas_texto (columna # resto) df =
     (if count_list (columns df) columna = 0 then (Some KeyError, df)
      else if count_list (columns df) columna > 1 then (Some AttributeError, df)
      else limpiar_columnas_texto resto
             (asignar_columna columna
                (map (cell_strip \<circ> astype_str) (obtener_columna columna df)) df))"

definition limpiar_y_transformar_datos :: "'a dataset_scheme \<Rightarrow> (bool, 'a dataset_scheme) efecto" where
  "limpiar_y_transformar_datos d =
     (if \<not> esta_cargado d then (Inr False, d, [MsgNoHayDatosParaProcesar])
      else case dataframe d of
        None \<Rightarrow> (Inl AttributeError, d, [MsgIniciandoLimpieza])
      | Some df \<Rightarrow>
          let columnas_originales = length (columns df);
              df1 = normalizar_columnas df;
              filas_antes = length (filas df1);
              df2 = drop_duplicates df1;
              filas_eliminadas = filas_antes - length (filas df2);
              columnas_texto = select_dtypes_object df2;
              (error, df3) = limpiar_columnas_texto columnas_texto df2
          in (case error of
                Some e \<Rightarrow> (Inl e, d\<lparr>dataframe := Some df3\<rparr>, [MsgIniciandoLimpieza])
              | None \<Rightarrow>
                  (Inr True, d\<lparr>dataframe := Some df3\<rparr>,
                   [MsgIniciandoLimpieza, MsgTransformacionesAplicadas,
                    MsgColumnasNormalizadas columnas_originales,
                    MsgFilasEliminadas filas_eliminadas,
                    MsgColumnasTextoLimpiadas (length columnas_texto)])))"

definition obtener_informacion_basica :: "'a dataset_scheme \<Rightarrow> (unit, 'a dataset_scheme) efecto" where
  "obtener_informacion_basica d =
     (if \<not> esta_cargado d then (Inr (), d, [MsgNoHayDatosParaInformacion])
      else case dataframe d of
        None \<Rightarrow> (Inl AttributeError, d, [])
      | Some df \<Rightarrow>
          (Inr (), d, [MsgInformacionDataset (ruta_archivo d) (length (filas df)) (length (columns df))]))"

text \<open>
  \<open>describe\<close> stands for the library's \<open>df.describe(include='all')\<close>, which the model
  does not compute: it is a parameter, and may raise.
\<close>

definition mostrar_resumen_estadistico ::
    "(data_frame \<Rightarrow> excepcion + data_frame) \<Rightarrow> 'a dataset_scheme
       \<Rightarrow> (data_frame option, 'a dataset_scheme) efecto" where
  "mostrar_resumen_estadistico describe d =
     (if \<not> esta_cargado d then (Inr None, d, [MsgNoHayDatosParaResumen])
      else case dataframe d of
        None \<Rightarrow> (Inl AttributeError, d, [])
      | Some df \<Rightarrow>
          (case describe df of
             Inl e \<Rightarrow> (Inl e, d, [])
           | Inr resumen \<Rightarrow> (Inr (Some resumen), d, [MsgResumenEstadistico])))"

definition verificar_columnas_requeridas ::
    "string list \<Rightarrow> 'a dataset_scheme \<Rightarrow> (bool, 'a dataset_scheme) efecto" where
  "verificar_columnas_requeridas columnas_requeridas d =
     (if \<not> esta_cargado d then (Inr False, d, [])
      else case dataframe d of
        None \<Rightarrow> (if columnas_requeridas = [] then (Inr True, d, [MsgColumnasPresentes])
                 else (Inl AttributeError, d, []))
      | Some df \<Rightarrow>
          let columnas_faltantes = filter (\<lambda>columna. columna \<notin> set (columns df)) columnas_requeridas
          in if columnas_faltantes \<noteq> [] then (Inr False, d, [MsgColumnasFaltantes columnas_faltantes])
             else (Inr True, d, [MsgColumnasPresentes]))"

section \<open>Sequencing, try and except\<close>

definition resultado :: "('a, 's) efecto \<Rightarrow> excepcion + 'a" where
  "resultado m = fst m"

definition estado :: "('a, 's) efecto \<Rightarrow> 's" where
  "estado m = fst (snd m)"

definition salida :: "('a, 's) efecto \<Rightarrow> mensaje list" where
  "salida m = snd (snd m)"

text \<open>One statement after another: an exception ends the sequence.\<close>

definition luego :: "('a, 's) efecto \<Rightarrow> ('a \<Rightarrow> 's \<Rightarrow> ('b, 's) efecto) \<Rightarrow> ('b, 's) efecto" where
  "luego m f =
     (case m of
        (Inl e, s, out) \<Rightarrow> (Inl e, s, out)
      | (Inr a, s, out) \<Rightarrow> (case f a s of (r, s', out') \<Rightarrow> (r, s', out @ out')))"

text \<open>\<open>try: m except Exception as e: h e\<close>\<close>

definition try_except :: "('a, 's) efecto \<Rightarrow> (excepcion \<Rightarrow> 's \<Rightarrow> ('a, 's) efecto) \<Rightarrow> ('a, 's) efecto" where
  "try_except m h =
     (case m of
        (Inl e, s, out) \<Rightarrow> (case h e s of (r, s', out') \<Rightarrow> (r, s', out @ out'))
      | (Inr a, s, out) \<Rightarrow> (Inr a, s, out))"

definition imprimir :: "mensaje list \<Rightarrow> 's \<Rightarrow> (unit, 's) efecto" where
  "imprimir lineas s = (Inr (), s, lineas)"

definition retornar :: "'a \<Rightarrow> 's \<Rightarrow> ('a, 's) efecto" where
  "retornar v s = (Inr v, s, [])"

text \<open>Python's truth value of an optional string: \<open>None\<close> and \<open>""\<close> are false.\<close>

fun verdadero :: "string option \<Rightarrow> bool" where
  "verdadero None = False"
| "verdadero (Some s) = (s \<noteq> [])"

definition py_or :: "string option \<Rightarrow> string option \<Rightarrow> string option" where
  "py_or a b = (if verdadero a then a else b)"

definition endswith :: "string \<Rightarrow> string \<Rightarrow> bool" where
  "endswith s sufijo = (length sufijo \<le> length s \<and> drop (length s - length sufijo) s = sufijo)"

section \<open>The world outside: files and libraries\<close>

text \<open>
  What the file system, the encoding detector and the table readers answer is not
  computed by the program: each call is a function of its arguments, given by the
  environment, and may raise.
\<close>

record chardet_resultado =
  encoding :: "string option"
  confidence :: nat

datatype hoja = HojaIndice nat | HojaNombre string

record entorno =
  chardet_detect :: "string \<Rightarrow> excepcion + chardet_resultado"
  leer_lineas :: "string \<Rightarrow> string option \<Rightarrow> excepcion + string list"
  read_csv_nrows :: "string \<Rightarrow> string \<Rightarrow> string option \<Rightarrow> excepcion + data_frame"
  read_csv :: "string \<Rightarrow> string option \<Rightarrow> string option \<Rightarrow> excepcion + data_frame"
  sheet_names :: "string \<Rightarrow> excepcion + string list"
  read_excel :: "string \<Rightarrow> hoja \<Rightarrow> excepcion + data_frame"
  df_describe :: "data_frame \<Rightarrow> excepcion + data_frame"
  to_csv :: "data_frame \<Rightarrow> string \<Rightarrow> string \<Rightarrow> string \<Rightarrow> excepcion + unit"
  to_excel :: "data_frame \<Rightarrow> string \<Rightarrow> excepcion + unit"

section \<open>DatasetCSV\<close>

text \<open>
  \<open>attr_separador\<close> and \<open>attr_codificacion\<close> are the private attributes
  \<open>__separador\<close> and \<open>__codificacion\<close>; \<open>separador\<close> and \<open>codificacion\<close> are
  the properties.
\<close>

record dataset_csv = dataset +
  attr_separador :: "string option"
  attr_codificacion :: "string option"
  separador_detectado :: "string option"
  codificacion_detectada :: "string option"

definition DatasetCSV_init :: "string \<Rightarrow> string option \<Rightarrow> string option \<Rightarrow> dataset_csv" where
  "DatasetCSV_init ruta sep cod =
     \<lparr>ruta_archivo = ruta, dataframe = None, esta_cargado = False,
      attr_separador = sep, attr_codificacion = cod,
      separador_detectado = None, codificacion_detectada = None\<rparr>"

definition separador :: "dataset_csv \<Rightarrow> string option" where
  "separador d = py_or (attr_separador d) (separador_detectado d)"

definition codificacion :: "dataset_csv \<Rightarrow> string option" where
  "codificacion d = py_or (attr_codificacion d) (codificacion_detectada d)"

definition validar_extension_csv :: "dataset_csv \<Rightarrow> (bool, dataset_csv) efecto" where
  "validar_extension_csv d =
     (let extensiones_validas = [''.csv'', ''.txt'', ''.tsv''];
          extension = str_lower (ruta_archivo d)
      in if list_ex (endswith extension) extensiones_validas then (Inr True, d, [])
         else (Inr True, d, [MsgExtensionCSVNoReconocida (ruta_archivo d)]))"

definition detectar_codificacion :: "entorno \<Rightarrow> dataset_csv \<Rightarrow> (unit, dataset_csv) efecto" where
  "detectar_codificacion env d =
     (case chardet_detect env (ruta_archivo d) of
        Inr res \<Rightarrow>
          (Inr (), d\<lparr>codificacion_detectada := encoding res\<rparr>,
           [MsgDetectandoCodificacion, MsgCodificacionDetectada (encoding res) (confidence res)])
      | Inl e \<Rightarrow>
          (Inr (), d\<lparr>codificacion_detectada := Some ''utf-8''\<rparr>,
           [MsgDetectandoCodificacion, MsgNoSePudoDetectarCodificacion e,
            MsgUsandoCodificacionPorDefecto]))"

definition separadores_comunes :: "string list" where
  "separadores_comunes = ['','', '';'', [CHR 0x09], ''|'']"

text \<open>
  The loop over the candidates: \<open>leer sep\<close> is the trial parse with \<open>sep\<close>; a trial
  that raises is skipped; a candidate replaces the best one only with strictly more
  columns.
\<close>

fun probar_separadores ::
    "(string \<Rightarrow> excepcion + data_frame) \<Rightarrow> string list \<Rightarrow> string \<times> nat \<Rightarrow> string \<times> nat" where
  "probar_separadores leer [] (mejor_separador, max_columnas) = (mejor_separador, max_columnas)"
| "probar_separadores leer (sep # resto) (mejor_separador, max_columnas) =
     (case leer sep of
        Inl e \<Rightarrow> probar_separadores leer resto (mejor_separador, max_columnas)
      | Inr df_prueba \<Rightarrow>
          (let num_columnas = length (columns df_prueba)
           in if num_columnas > max_columnas then probar_separadores leer resto (sep, num_columnas)
              else probar_separadores leer resto (mejor_separador, max_columnas)))"

definition detectar_separador :: "entorno \<Rightarrow> dataset_csv \<Rightarrow> (unit, dataset_csv) efecto" where
  "detectar_separador env d =
     (case leer_lineas env (ruta_archivo d) (codificacion d) of
        Inl e \<Rightarrow>
          (Inr (), d\<lparr>separador_detectado := Some '',''\<rparr>,
           [MsgDetectandoSeparador, MsgNoSePudoDetectarSeparador e, MsgUsandoSeparadorPorDefecto])
      | Inr lineas_muestra \<Rightarrow>
          (let (mejor_separador, max_columnas) =
                 probar_separadores (\<lambda>sep. read_csv_nrows env (ruta_archivo d) sep (codificacion d))
                   separadores_comunes ('','', 0)
           in (Inr (), d\<lparr>separador_detectado := Some mejor_separador\<rparr>,
               [MsgDetectandoSeparador, MsgSeparadorDetectado mejor_separador])))"

definition leer_archivo_csv :: "entorno \<Rightarrow> dataset_csv \<Rightarrow> (data_frame option, dataset_csv) efecto" where
  "leer_archivo_csv env d =
     (case read_csv env (ruta_archivo d) (separador d) (codificacion d) of
        Inr df \<Rightarrow> (Inr (Some df), d, [])
      | Inl e \<Rightarrow> (Inr None, d, [MsgErrorLeerCSV e]))"

text \<open>The \<open>except\<close> clauses of \<open>cargar_datos\<close>, in their order.\<close>

fun manejar_excepcion_csv :: "excepcion \<Rightarrow> string \<Rightarrow> mensaje list" where
  "manejar_excepcion_csv FileNotFoundError ruta = [MsgArchivoNoEncontrado ruta]"
| "manejar_excepcion_csv PermissionError ruta = [MsgSinPermisos ruta]"
| "manejar_excepcion_csv UnicodeDecodeError ruta =
     [MsgErrorCodificacion UnicodeDecodeError, MsgSugerenciaCodificacion]"
| "manejar_excepcion_csv e ruta = [MsgErrorInesperado e]"

definition cargar_datos_csv :: "entorno \<Rightarrow> dataset_csv \<Rightarrow> (bool, dataset_csv) efecto" where
  "cargar_datos_csv env d0 =
     try_except
       (luego (imprimir [MsgIniciandoCargaCSV (ruta_archivo d0)] d0) (\<lambda>_ d.
        luego (validar_extension_csv d) (\<lambda>extension_valida d.
          if \<not> extension_valida then retornar False d
          else
        luego (if \<not> verdadero (attr_codificacion d) then detectar_codificacion env d
               else retornar () d) (\<lambda>_ d.
        luego (if \<not> verdadero (attr_separador d) then detectar_separador env d
               else retornar () d) (\<lambda>_ d.
        luego (leer_archivo_csv env d) (\<lambda>df d.
          case df of
            Some t \<Rightarrow>
              luego (dataframe_setter (PyDataFrame t) d) (\<lambda>_ d.
              luego (imprimir [MsgCSVCargado (separador d) (codificacion d)
                                 (length (filas t)) (length (columns t))] d) (\<lambda>_ d.
              luego (validar_integridad_datos d) (\<lambda>valido d.
              luego (if valido then limpiar_y_transformar_datos d else retornar False d) (\<lambda>_ d.
              retornar True d))))
          | None \<Rightarrow>
              luego (imprimir [MsgNoSePudieronCargarCSV] d) (\<lambda>_ d. retornar False d)))))))
       (\<lambda>e d. luego (imprimir (manejar_excepcion_csv e (ruta_archivo d)) d) (\<lambda>_ d. retornar False d))"

definition cambiar_parametros_carga ::
    "entorno \<Rightarrow> string option \<Rightarrow> string option \<Rightarrow> dataset_csv \<Rightarrow> (bool, dataset_csv) efecto" where
  "cambiar_parametros_carga env nuevo_separador nueva_codificacion d0 =
     (let (d1, c1) =
            (if verdadero nuevo_separador \<and> nuevo_separador \<noteq> attr_separador d0
             then (d0\<lparr>attr_separador := nuevo_separador\<rparr>, [''separador''])
             else (d0, []));
          (d2, c2) =
            (if verdadero nueva_codificacion \<and> nueva_codificacion \<noteq> attr_codificacion d1
             then (d1\<lparr>attr_codificacion := nueva_codificacion\<rparr>, [''codificacion''])
             else (d1, []));
          cambios_realizados = c1 @ c2
      in if cambios_realizados \<noteq> []
         then luego (imprimir [MsgAplicandoCambios cambios_realizados] d2) (\<lambda>_ d. cargar_datos_csv env d)
         else (Inr False, d2, [MsgSinCambios]))"

definition mostrar_informacion_archivo :: "dataset_csv \<Rightarrow> (unit, dataset_csv) efecto" where
  "mostrar_informacion_archivo d =
     (if esta_cargado d \<and> dataframe d = None then (Inl AttributeError, d, [])
      else (Inr (), d, [MsgInformacionArchivoCSV (ruta_archivo d) (codificacion d) (separador d)]))"

definition exportar_con_nuevos_parametros ::
    "entorno \<Rightarrow> string \<Rightarrow> string \<Rightarrow> string \<Rightarrow> dataset_csv \<Rightarrow> (bool, dataset_csv) efecto" where
  "exportar_con_nuevos_parametros env ruta_destino separador_salida codificacion_salida d =
     (if \<not> esta_cargado d then (Inr False, d, [MsgNoHayDatosParaExportar])
      else case dataframe d of
        None \<Rightarrow> (Inr False, d, [MsgErrorExportar AttributeError])
      | Some df \<Rightarrow>
          (case to_csv env df ruta_destino separador_salida codificacion_salida of
             Inr _ \<Rightarrow> (Inr True, d, [MsgArchivoExportado ruta_destino])
           | Inl e \<Rightarrow> (Inr False, d, [MsgErrorExportar e])))"

definition previsualizar_estructura :: "nat \<Rightarrow> 'a dataset_scheme \<Rightarrow> (unit, 'a dataset_scheme) efecto" where
  "previsualizar_estructura num_lineas d =
     (if \<not> esta_cargado d then (Inr (), d, [MsgNoHayDatosParaPrevisualizar])
      else case dataframe d of
        None \<Rightarrow> (Inl AttributeError, d, [])
      | Some df \<Rightarrow> (Inr (), d, [MsgPrevisualizacion num_lineas]))"

section \<open>DatasetExcel\<close>

record dataset_excel = dataset +
  nombre_hoja :: "string option"
  hojas_disponibles :: "string list"

definition DatasetExcel_init :: "string \<Rightarrow> string option \<Rightarrow> dataset_excel" where
  "DatasetExcel_init ruta hoja =
     \<lparr>ruta_archivo = ruta, dataframe = None, esta_cargado = False,
      nombre_hoja = hoja, hojas_disponibles = []\<rparr>"

definition validar_extension_excel :: "dataset_excel \<Rightarrow> (bool, dataset_excel) efecto" where
  "validar_extension_excel d =
     (let extensiones_validas = [''.xlsx'', ''.xls'', ''.xlsm''];
          extension = str_lower (ruta_archivo d)
      in if list_ex (endswith extension) extensiones_validas then (Inr True, d, [])
         else (Inr True, d, [MsgExtensionExcelNoReconocida (ruta_archivo d)]))"

definition obtener_hojas_disponibles :: "entorno \<Rightarrow> dataset_excel \<Rightarrow> (unit, dataset_excel) efecto" where
  "obtener_hojas_disponibles env d =
     (case sheet_names env (ruta_archivo d) of
        Inr hojas \<Rightarrow> (Inr (), d\<lparr>hojas_disponibles := hojas\<rparr>, [MsgHojasDisponibles hojas])
      | Inl e \<Rightarrow> (Inr (), d\<lparr>hojas_disponibles := []\<rparr>, [MsgNoSePudieronObtenerHojas e]))"

text \<open>
  The entry \<open>sheet_name\<close> of \<open>parametros_lectura\<close> as \<open>_leer_archivo_excel\<close> builds
  it, with the warning it prints on the way.
\<close>

definition parametros_lectura :: "dataset_excel \<Rightarrow> hoja \<times> mensaje list" where
  "parametros_lectura d =
     (case nombre_hoja d of
        None \<Rightarrow> (HojaIndice 0, [])
      | Some nombre \<Rightarrow>
          if nombre \<noteq> [] then
            (if nombre \<in> set (hojas_disponibles d) then (HojaNombre nombre, [])
             else (HojaIndice 0, [MsgHojaNoExiste nombre]))
          else (HojaIndice 0, []))"

definition leer_archivo_excel :: "entorno \<Rightarrow> dataset_excel \<Rightarrow> (data_frame option, dataset_excel) efecto" where
  "leer_archivo_excel env d =
     (let (sheet_name, avisos) = parametros_lectura d
      in case read_excel env (ruta_archivo d) sheet_name of
           Inr df \<Rightarrow> (Inr (Some df), d, avisos)
         | Inl e \<Rightarrow> (Inr None, d, avisos @ [MsgErrorLeerExcel e]))"

fun manejar_excepcion_excel :: "excepcion \<Rightarrow> string \<Rightarrow> mensaje list" where
  "manejar_excepcion_excel FileNotFoundError ruta = [MsgArchivoNoEncontrado ruta]"
| "manejar_excepcion_excel PermissionError ruta = [MsgSinPermisos ruta]"
| "manejar_excepcion_excel e ruta = [MsgErrorInesperado e]"

definition cargar_datos_excel :: "entorno \<Rightarrow> dataset_excel \<Rightarrow> (bool, dataset_excel) efecto" where
  "cargar_datos_excel env d0 =
     try_except
       (luego (imprimir [MsgIniciandoCargaExcel (ruta_archivo d0)] d0) (\<lambda>_ d.
        luego (validar_extension_excel d) (\<lambda>extension_valida d.
          if \<not> extension_valida then retornar False d
          else
        luego (obtener_hojas_disponibles env d) (\<lambda>_ d.
        luego (leer_archivo_excel env d) (\<lambda>df d.
          case df of
            Some t \<Rightarrow>
              luego (dataframe_setter (PyDataFrame t) d) (\<lambda>_ d.
              luego (imprimir [MsgExcelCargado (nombre_hoja d)
                                 (length (filas t)) (length (columns t))] d) (\<lambda>_ d.
              luego (validar_integridad_datos d) (\<lambda>valido d.
              luego (if valido then limpiar_y_transformar_datos d else retornar False d) (\<lambda>_ d.
              retornar True d))))
          | None \<Rightarrow>
              luego (imprimir [MsgNoSePudieronCargarExcel] d) (\<lambda>_ d. retornar False d))))))
       (\<lambda>e d. luego (imprimir (manejar_excepcion_excel e (ruta_archivo d)) d) (\<lambda>_ d. retornar False d))"

definition cambiar_hoja :: "entorno \<Rightarrow> string \<Rightarrow> dataset_excel \<Rightarrow> (bool, dataset_excel) efecto" where
  "cambiar_hoja env nuevo_nombre_hoja d =
     (if hojas_disponibles d = [] then (Inr False, d, [MsgNoHayInformacionHojas])
      else if nuevo_nombre_hoja \<notin> set (hojas_disponibles d)
      then (Inr False, d, [MsgCambiarHojaNoExiste nuevo_nombre_hoja (hojas_disponibles d)])
      else luego (imprimir [MsgCambiandoHoja (nombre_hoja d) nuevo_nombre_hoja] d) (\<lambda>_ d.
           cargar_datos_excel env (d\<lparr>nombre_hoja := Some nuevo_nombre_hoja\<rparr>)))"

definition mostrar_informacion_hojas :: "dataset_excel \<Rightarrow> (unit, dataset_excel) efecto" where
  "mostrar_informacion_hojas d =
     (if hojas_disponibles d = [] then (Inr (), d, [MsgNoHayInformacionHojas])
      else (Inr (), d, [MsgInformacionHojas (hojas_disponibles d) (nombre_hoja d)]))"

definition exportar_hoja_actual :: "entorno \<Rightarrow> string \<Rightarrow> dataset_excel \<Rightarrow> (bool, dataset_excel) efecto" where
  "exportar_hoja_actual env ruta_destino d =
     (if \<not> esta_cargado d then (Inr False, d, [MsgNoHayDatosParaExportar])
      else case dataframe d of
        None \<Rightarrow> (Inr False, d, [MsgErrorExportar AttributeError])
      | Some df \<Rightarrow>
          (case to_excel env df ruta_destino of
             Inr _ \<Rightarrow> (Inr True, d, [MsgArchivoExportado ruta_destino])
           | Inl e \<Rightarrow> (Inr False, d, [MsgErrorExportar e])))"

section \<open>The public operations of the two loaders\<close>

text \<open>
  A call of a public method, with the environment it runs in. \<open>ejecutar\<close> gives the
  object after the call, whether the call returned or raised.
\<close>

datatype operacion_dataset =
    OpAsignarDataframe py_value
  | OpValidarIntegridad
  | OpLimpiarTransformar
  | OpInformacionBasica
  | OpResumenEstadistico
  | OpVerificarColumnas "string list"
  | OpPrevisualizar nat

fun ejecutar_dataset :: "entorno \<Rightarrow> operacion_dataset \<Rightarrow> 'a dataset_scheme \<Rightarrow> 'a dataset_scheme" where
  "ejecutar_dataset env (OpAsignarDataframe v) d = estado (dataframe_setter v d)"
| "ejecutar_dataset env OpValidarIntegridad d = estado (validar_integridad_datos d)"
| "ejecutar_dataset env OpLimpiarTransformar d = estado (limpiar_y_transformar_datos d)"
| "ejecutar_dataset env OpInformacionBasica d = estado (obtener_informacion_basica d)"
| "ejecutar_dataset env OpResumenEstadistico d = estado (mostrar_resumen_estadistico (df_describe env) d)"
| "ejecutar_dataset env (OpVerificarColumnas cs) d = estado (verificar_columnas_requeridas cs d)"
| "ejecutar_dataset env (OpPrevisualizar n) d = estado (previsualizar_estructura n d)"

datatype operacion_csv =
    OpDatasetCSV operacion_dataset
  | OpCargarCSV
  | OpCambiarParametros "string option" "string option"
  | OpInformacionArchivo
  | OpExportarCSV string string string

fun ejecutar_csv :: "entorno \<Rightarrow> operacion_csv \<Rightarrow> dataset_csv \<Rightarrow> dataset_csv" where
  "ejecutar_csv env (OpDatasetCSV op) d = ejecutar_dataset env op d"
| "ejecutar_csv env OpCargarCSV d = estado (cargar_datos_csv env d)"
| "ejecutar_csv env (OpCambiarParametros sep cod) d = estado (cambiar_parametros_carga env sep cod d)"
| "ejecutar_csv env OpInformacionArchivo d = estado (mostrar_informacion_archivo d)"
| "ejecutar_csv env (OpExportarCSV ruta sep cod) d = estado (exportar_con_nuevos_parametros env ruta sep cod d)"

datatype operacion_excel =
    OpDatasetExcel operacion_dataset
  | OpCargarExcel
  | OpCambiarHoja string
  | OpInformacionHojas
  | OpExportarHoja string

fun ejecutar_excel :: "entorno \<Rightarrow> operacion_excel \<Rightarrow> dataset_excel \<Rightarrow> dataset_excel" where
  "ejecutar_excel env (OpDatasetExcel op) d = ejecutar_dataset env op d"
| "ejecutar_excel env OpCargarExcel d = estado (cargar_datos_excel env d)"
| "ejecutar_excel env (OpCambiarHoja nombre) d = estado (cambiar_hoja env nombre d)"
| "ejecutar_excel env OpInformacionHojas d = estado (mostrar_informacion_hojas d)"
| "ejecutar_excel env (OpExportarHoja ruta) d = estado (exportar_hoja_actual env ruta d)"

text \<open>A history of calls, each in the environment of its moment.\<close>

fun historia_csv :: "(entorno \<times> operacion_csv) list \<Rightarrow> dataset_csv \<Rightarrow> dataset_csv" where
  "historia_csv [] d = d"
| "historia_csv ((env, op) # resto) d = historia_csv resto (ejecutar_csv env op d)"

fun historia_excel :: "(entorno \<times> operacion_excel) list \<Rightarrow> dataset_excel \<Rightarrow> dataset_excel" where
  "historia_excel [] d = d"
| "historia_excel ((env, op) # resto) d = historia_excel resto (ejecutar_excel env op d)"

text \<open>The two attributes agree: loaded exactly when there is a table.\<close>

definition sincronizado :: "'a dataset_scheme \<Rightarrow> bool" where
  "sincronizado d = (esta_cargado d = (dataframe d \<noteq> None))"

section \<open>Notions used in the statements\<close>

text \<open>The rows that are kept when the rows in \<open>vistas\<close> have been seen before.\<close>

definition primeras :: "'a list \<Rightarrow> 'a list \<Rightarrow> 'a list" where
  "primeras vistas xs = map fst (filter (\<lambda>(r, m). \<not> m) (zip xs (marcar_duplicadas vistas xs)))"

text \<open>What the cleaning does to one cell of a text column, and to one row.\<close>

definition limpiar_celda :: "cell \<Rightarrow> cell" where
  "limpiar_celda = cell_strip \<circ> astype_str"

definition limpiar_fila :: "string list \<Rightarrow> string list \<Rightarrow> cell list \<Rightarrow> cell list" where
  "limpiar_fila cols cs r = fold (\<lambda>c r. r[indice c cols := limpiar_celda (r ! indice c cols)]) cs r"



text \<open>
  The selection rule for the delimiter in the words of the specification: among the
  candidates whose trial parse succeeds, listed in declaration order with their column
  counts, the first one with the maximum count; comma when no trial succeeds.
\<close>

definition conteos :: "(string \<Rightarrow> excepcion + data_frame) \<Rightarrow> string list \<Rightarrow> (string \<times> nat) list" where
  "conteos leer candidatos =
     concat (map (\<lambda>sep. case leer sep of Inl e \<Rightarrow> [] | Inr t \<Rightarrow> [(sep, length (columns t))]) candidatos)"

definition regla_seleccion :: "(string \<times> nat) list \<Rightarrow> string" where
  "regla_seleccion exitos =
     (if exitos = [] then '',''
      else fst (hd (filter (\<lambda>(sep, n). n = Max (set (map snd exitos))) exitos)))"

text \<open>
  The loader as it stands when the file is parsed: after the detections of a CSV load,
  after the enumeration of the sheets of an Excel load.
\<close>

definition antes_de_leer :: "entorno \<Rightarrow> dataset_csv \<Rightarrow> dataset_csv" where
  "antes_de_leer env d =
     (let d1 = (if \<not> verdadero (attr_codificacion d) then estado (detectar_codificacion env d) else d)
      in if \<not> verdadero (attr_separador d1) then estado (detectar_separador env d1) else d1)"

definition con_hojas :: "entorno \<Rightarrow> dataset_excel \<Rightarrow> dataset_excel" where
  "con_hojas env d = estado (obtener_hojas_disponibles env d)"

text \<open>
  Lines printed before a computation, and what \<open>cargar_datos\<close> does once the parse
  has given a table: store it, validate, clean when valid.
\<close>

definition anteponer :: "mensaje list \<Rightarrow> ('a, 's) efecto \<Rightarrow> ('a, 's) efecto" where
  "anteponer lineas m = (case m of (r, s, out) \<Rightarrow> (r, s, lineas @ out))"

definition despues_de_leer :: "data_frame \<Rightarrow> 'a dataset_scheme \<Rightarrow> (bool, 'a dataset_scheme) efecto" where
  "despues_de_leer t d =
     luego (validar_integridad_datos (d\<lparr>dataframe := Some t, esta_cargado := True\<rparr>)) (\<lambda>valido d.
     luego (if valido then limpiar_y_transformar_datos d else retornar False d) (\<lambda>_ d.
     retornar True d))"

text \<open>
  Example documents: a table whose two rows differ in a trailing space only, and a
  table with a missing text cell, a repeated row and labels to normalise.
\<close>

definition tabla_espacios :: data_frame where
  "tabla_espacios = \<lparr>esquema = [(''x'', ObjectDtype)], filas = [[Str ''a''], [Str ''a '']]\<rparr>"

definition documento_espacios :: dataset where
  "documento_espacios = \<lparr>ruta_archivo = ''datos.csv'', dataframe = Some tabla_espacios, esta_cargado = True\<rparr>"

definition tabla_ventas :: data_frame where
  "tabla_ventas =
     \<lparr>esquema = [(''Cliente'', ObjectDtype), (''Total Amount'', NumericDtype)],
      filas = [[Str '' ana '', Num 10], [NaN, Num 20], [Str '' ana '', Num 10]]\<rparr>"

definition documento_ventas :: dataset where
  "documento_ventas = \<lparr>ruta_archivo = ''ventas.csv'', dataframe = Some tabla_ventas, esta_cargado = True\<rparr>"


text \<open>
  An example environment: a file whose first line is \<open>a;b|c;d|e\<close>, which no
  detector can open and no full parse can decode, and a workbook with the sheets
  \<open>Q1\<close> and \<open>Q2\<close> of which only the first can be parsed. Two loaders that
  already hold a table.
\<close>

definition tabla_una_columna :: data_frame where
  "tabla_una_columna = \<lparr>esquema = [(''a;b|c;d|e'', ObjectDtype)], filas = [[Str ''1;2|3;4|5'']]\<rparr>"

definition tabla_tres_columnas :: data_frame where
  "tabla_tres_columnas =
     \<lparr>esquema = [(''a'', NumericDtype), (''b'', NumericDtype), (''c'', NumericDtype)],
      filas = [[Num 1, Num 2, Num 3]]\<rparr>"

definition entorno_ejemplo :: entorno where
  "entorno_ejemplo =
     \<lparr>chardet_detect = (\<lambda>ruta. Inl PermissionError),
      leer_lineas = (\<lambda>ruta cod. Inr [''a;b|c;d|e'', ''1;2|3;4|5'']),
      read_csv_nrows = (\<lambda>ruta sep cod.
         if sep = '';'' \<or> sep = ''|'' then Inr tabla_tres_columnas
         else if sep = '','' then Inr tabla_una_columna
         else Inl OtraExcepcion),
      read_csv = (\<lambda>ruta sep cod. Inl UnicodeDecodeError),
      sheet_names = (\<lambda>ruta. Inr [''Q1'', ''Q2'']),
      read_excel = (\<lambda>ruta h. if h = HojaIndice 0 then Inr tabla_ventas else Inl ValueError),
      df_describe = (\<lambda>t. Inr t),
      to_csv = (\<lambda>t ruta sep cod. Inr ()),
      to_excel = (\<lambda>t ruta. Inr ())\<rparr>"

definition csv_ejemplo :: dataset_csv where
  "csv_ejemplo = (DatasetCSV_init ''datos.csv'' None None)\<lparr>dataframe := Some tabla_ventas, esta_cargado := True\<rparr>"

definition excel_ejemplo :: "string option \<Rightarrow> dataset_excel" where
  "excel_ejemplo hoja = (DatasetExcel_init ''libro.xlsx'' hoja)\<lparr>dataframe := Some tabla_espacios, esta_cargado := True\<rparr>"

text \<open>
  The sheet names that the enumeration of a load gives (none when it fails).
\<close>

definition hojas_enumeradas :: "entorno \<Rightarrow> dataset_excel \<Rightarrow> string list" where
  "hojas_enumeradas env d = (case sheet_names env (ruta_archivo d) of Inr hs \<Rightarrow> hs | Inl e \<Rightarrow> [])"

text \<open>
  A load parses the sheet \<open>h\<close>: it reads that sheet of the workbook; when the read
  raises, the load returns false, prints the error and keeps the table; when the read
  gives a table, that table is stored and validated, cleaned when the validation
  accepts it, and the load returns true unless the cleaning raises.
\<close>

definition carga_la_hoja :: "entorno \<Rightarrow> dataset_excel \<Rightarrow> hoja \<Rightarrow> bool" where
  "carga_la_hoja env d h =
     (case read_excel env (ruta_archivo d) h of
        Inl e \<Rightarrow>
          resultado (cargar_datos_excel env d) = Inr False
          \<and> estado (cargar_datos_excel env d) = con_hojas env d
          \<and> MsgErrorLeerExcel e \<in> set (salida (cargar_datos_excel env d))
      | Inr t \<Rightarrow>
          (let d1 = (con_hojas env d)\<lparr>dataframe := Some t, esta_cargado := True\<rparr>;
               valido = (resultado (validar_integridad_datos d1) = Inr True)
           in estado (cargar_datos_excel env d)
                = (if valido then estado (limpiar_y_transformar_datos d1) else d1)
              \<and> resultado (cargar_datos_excel env d)
                = (if valido \<and> isl (resultado (limpiar_y_transformar_datos d1)) then Inr False
                   else Inr True)
              \<and> MsgExcelCargado (nombre_hoja d) (length (filas t)) (length (columns t))
                  \<in> set (salida (cargar_datos_excel env d))))"

text \<open>
  The example environment with a detector that finds no candidate encoding, as for an
  empty file: it returns normally, with encoding \<open>None\<close>.
\<close>

definition entorno_sin_candidato :: entorno where
  "entorno_sin_candidato =
     entorno_ejemplo\<lparr>chardet_detect := \<lambda>ruta. Inr \<lparr>encoding = None, confidence = 0\<rparr>\<rparr>"

section \<open>Properties of the text and table operations\<close>

lemma char_lower_idem: "char_lower (char_lower c) = char_lower c"
  by (cases c) (auto simp: Let_def)

lemma normalizar_nombre_idem: "normalizar_nombre (normalizar_nombre s) = normalizar_nombre s"
  by (simp add: normalizar_nombre_def str_replace_def str_lower_def char_lower_idem)





lemma primeras_Nil: "primeras v [] = []"
  by (simp add: primeras_def)

lemma primeras_Cons:
  "primeras v (x # xs) = (if x \<in> set v then primeras (x # v) xs else x # primeras (x # v) xs)"
  by (simp add: primeras_def)

lemma set_primeras: "set (primeras v xs) = set xs - set v"
  by (induction xs arbitrary: v) (auto simp: primeras_Cons primeras_Nil)

lemma distinct_primeras: "distinct (primeras v xs)"
  by (induction xs arbitrary: v) (auto simp: primeras_Cons primeras_Nil set_primeras)


lemma marcadas_vacio:
  "filter id (marcar_duplicadas v xs) = [] \<longleftrightarrow> distinct xs \<and> set xs \<inter> set v = {}"
  by (induction xs arbitrary: v) auto


lemma contar_duplicadas_cero:
  "contar_duplicadas df = 0 \<longleftrightarrow> esquema df = [] \<or> distinct (filas df)"
  by (auto simp: contar_duplicadas_def duplicated_def df_empty_def marcadas_vacio)

lemma contar_nulos_cero: "contar_nulos df = 0 \<longleftrightarrow> (\<forall>r\<in>set (filas df). NaN \<notin> set r)"
  by (auto simp: contar_nulos_def isnull_def filter_empty_conv)

lemma columns_filas_update [simp]: "columns (df\<lparr>filas := x\<rparr>) = columns df"
  by (simp add: columns_def)





section \<open>Properties of the cleaning\<close>

lemma esquema_drop_duplicates [simp]: "esquema (drop_duplicates t) = esquema t"
  by (simp add: drop_duplicates_def)

lemma columns_drop_duplicates [simp]: "columns (drop_duplicates t) = columns t"
  by (simp add: columns_def)

lemma select_dtypes_drop_duplicates [simp]:
  "select_dtypes_object (drop_duplicates t) = select_dtypes_object t"
  by (simp add: select_dtypes_object_def)



lemma limpiar_fila_Cons:
  "limpiar_fila cols (c # cs) r = limpiar_fila cols cs (r[indice c cols := limpiar_celda (r ! indice c cols)])"
  by (simp add: limpiar_fila_def)

lemma length_limpiar_fila [simp]: "length (limpiar_fila cols cs r) = length r"
  by (induction cs arbitrary: r) (simp_all add: limpiar_fila_Cons, simp add: limpiar_fila_def)



lemma normalizar_columnas_idem:
  "normalizar_columnas (normalizar_columnas t) = normalizar_columnas t"
  by (simp add: normalizar_columnas_def comp_def case_prod_unfold normalizar_nombre_idem)









section \<open>The example documents, cleaned\<close>

lemmas evaluar_limpieza =
  limpiar_y_transformar_datos_def Let_def normalizar_columnas_def normalizar_nombre_def
  str_replace_def str_lower_def drop_duplicates_def df_empty_def duplicated_def
  select_dtypes_object_def columns_def asignar_columna_def obtener_columna_def
  str_strip_def isspace_def resultado_def estado_def salida_def

lemma limpiar_espacios:
  "limpiar_y_transformar_datos documento_espacios =
     (Inr True, documento_espacios\<lparr>dataframe := Some \<lparr>esquema = [(''x'', ObjectDtype)], filas = [[Str ''a''], [Str ''a'']]\<rparr>\<rparr>,
      [MsgIniciandoLimpieza, MsgTransformacionesAplicadas, MsgColumnasNormalizadas 1, MsgFilasEliminadas 0, MsgColumnasTextoLimpiadas 1])"
  by (simp add: documento_espacios_def tabla_espacios_def evaluar_limpieza)


section \<open>The table slot\<close>

text \<open>
  Claim C7. Assigning to the table slot a value that is neither \<open>None\<close> nor a table
  raises \<open>TypeError\<close> and leaves the document as it was, table and loaded flag
  included; assigning \<open>None\<close> or a table never raises, and stores the value.
\<close>

theorem dataframe_setter_contrato:
  "(v \<noteq> PyNone \<and> \<not> es_DataFrame v \<longrightarrow> dataframe_setter v d = (Inl TypeError, d, []))
   \<and> (v = PyNone \<or> es_DataFrame v \<longrightarrow>
        resultado (dataframe_setter v d) = Inr ()
        \<and> dataframe (estado (dataframe_setter v d)) = como_DataFrame v
        \<and> esta_cargado (estado (dataframe_setter v d)) = (v \<noteq> PyNone))"
  by (auto simp: dataframe_setter_def resultado_def estado_def)

theorem dataframe_setter_contrato_witness:
  "dataframe_setter (PyStr ''tabla'') documento_ventas = (Inl TypeError, documento_ventas, [])
   \<and> resultado (dataframe_setter PyNone documento_ventas) = Inr ()
   \<and> dataframe (estado (dataframe_setter PyNone documento_ventas)) = None
   \<and> esta_cargado (estado (dataframe_setter PyNone documento_ventas)) = False
   \<and> resultado (dataframe_setter (PyDataFrame tabla_espacios) documento_ventas) = Inr ()
   \<and> dataframe (estado (dataframe_setter (PyDataFrame tabla_espacios) documento_ventas)) = Some tabla_espacios
   \<and> esta_cargado (estado (dataframe_setter (PyDataFrame tabla_espacios) documento_ventas)) = True"
  using dataframe_setter_contrato[of "PyStr ''tabla''" documento_ventas]
    dataframe_setter_contrato[of PyNone documento_ventas]
    dataframe_setter_contrato[of "PyDataFrame tabla_espacios" documento_ventas]
  by simp

section \<open>Methods called without a table\<close>

text \<open>
  Claim C2, as the code has it. On a document that is not loaded, the cleaning returns
  false and the summary and the basic information return nothing, each with one printed
  line; the check of required columns returns false; none of them raises or changes the
  document. The validation raises \<open>ValueError\<close>, by its explicit guard, and leaves
  the document unchanged.
\<close>

theorem sin_tabla_falla_sin_mutar:
  assumes "\<not> esta_cargado d"
  shows "limpiar_y_transformar_datos d = (Inr False, d, [MsgNoHayDatosParaProcesar])
         \<and> mostrar_resumen_estadistico describe d = (Inr None, d, [MsgNoHayDatosParaResumen])
         \<and> obtener_informacion_basica d = (Inr (), d, [MsgNoHayDatosParaInformacion])
         \<and> resultado (verificar_columnas_requeridas nombres d) = Inr False
         \<and> estado (verificar_columnas_requeridas nombres d) = d
         \<and> validar_integridad_datos d = (Inl ValueError, d, [])"
  using assms
  by (simp add: limpiar_y_transformar_datos_def mostrar_resumen_estadistico_def
      obtener_informacion_basica_def verificar_columnas_requeridas_def
      validar_integridad_datos_def resultado_def estado_def)

theorem sin_tabla_falla_sin_mutar_witness:
  "\<not> esta_cargado (Dataset_init ''datos.csv'')
   \<and> limpiar_y_transformar_datos (Dataset_init ''datos.csv'')
       = (Inr False, Dataset_init ''datos.csv'', [MsgNoHayDatosParaProcesar])
   \<and> mostrar_resumen_estadistico (\<lambda>t. Inr t) (Dataset_init ''datos.csv'')
       = (Inr None, Dataset_init ''datos.csv'', [MsgNoHayDatosParaResumen])
   \<and> resultado (verificar_columnas_requeridas [''x''] (Dataset_init ''datos.csv'')) = Inr False
   \<and> validar_integridad_datos (Dataset_init ''datos.csv'')
       = (Inl ValueError, Dataset_init ''datos.csv'', [])"
proof -
  have h: "\<not> esta_cargado (Dataset_init ''datos.csv'')" by (simp add: Dataset_init_def)
  from sin_tabla_falla_sin_mutar[OF h, where nombres = "[''x'']" and describe = "\<lambda>t. Inr t"] h
  show ?thesis by simp
qed

text \<open>
  The claim as stated fails for the validation: on a new document it raises.
\<close>

theorem validar_sin_datos_lanza:
  "resultado (validar_integridad_datos (Dataset_init ''datos.csv'')) = Inl ValueError"
  by (simp add: validar_integridad_datos_def Dataset_init_def resultado_def)

section \<open>Cleaning twice\<close>




text \<open>
  The example is a table that a load stores and cleans: the validation accepts it.
\<close>

lemma validar_espacios:
  "resultado (validar_integridad_datos documento_espacios) = Inr True"
  by (simp add: validar_integridad_datos_def documento_espacios_def tabla_espacios_def
      contar_nulos_def contar_duplicadas_def duplicated_def df_empty_def isnull_def resultado_def)

section \<open>Validation\<close>

text \<open>
  Claim C5. On a loaded document the validation returns true exactly when no cell is
  missing, no row repeats an earlier row and there is at least one row (the library
  reports no repeated rows for a table without columns); it prints one line for each
  kind of problem found, in this order, and the closing line when there is none; the
  document is returned as it was.
\<close>

theorem validar_integridad_datos_correcto:
  assumes "esta_cargado d" and "dataframe d = Some t"
  shows "validar_integridad_datos d =
           (Inr ((\<forall>r\<in>set (filas t). NaN \<notin> set r)
                 \<and> (esquema t = [] \<or> distinct (filas t))
                 \<and> filas t \<noteq> []),
            d,
            (if \<exists>r\<in>set (filas t). NaN \<in> set r then [MsgValoresFaltantes (contar_nulos t)] else [])
            @ (if esquema t \<noteq> [] \<and> \<not> distinct (filas t)
               then [MsgFilasDuplicadas (contar_duplicadas t)] else [])
            @ (if filas t = [] then [MsgDatasetVacio] else [])
            @ (if (\<forall>r\<in>set (filas t). NaN \<notin> set r)
                  \<and> (esquema t = [] \<or> distinct (filas t)) \<and> filas t \<noteq> []
               then [MsgValidacionCompletada] else []))"
proof -
  have n: "contar_nulos t > 0 \<longleftrightarrow> (\<exists>r\<in>set (filas t). NaN \<in> set r)"
    using contar_nulos_cero[of t] by auto
  have dd: "contar_duplicadas t > 0 \<longleftrightarrow> esquema t \<noteq> [] \<and> \<not> distinct (filas t)"
    using contar_duplicadas_cero[of t] by auto
  show ?thesis using assms
    by (auto simp: validar_integridad_datos_def Let_def n dd)
qed

theorem validar_integridad_datos_witness:
  "esta_cargado documento_ventas \<and> dataframe documento_ventas = Some tabla_ventas
   \<and> validar_integridad_datos documento_ventas =
       (Inr False, documento_ventas, [MsgValoresFaltantes 1, MsgFilasDuplicadas 1])"
proof -
  have h1: "esta_cargado documento_ventas" by (simp add: documento_ventas_def)
  have h2: "dataframe documento_ventas = Some tabla_ventas" by (simp add: documento_ventas_def)
  have "contar_nulos tabla_ventas = 1"
    by (simp add: contar_nulos_def tabla_ventas_def isnull_def)
  moreover have "contar_duplicadas tabla_ventas = 1"
    by (simp add: contar_duplicadas_def duplicated_def df_empty_def tabla_ventas_def)
  ultimately show ?thesis
    using validar_integridad_datos_correcto[OF h1 h2] h1 h2
    by (simp add: tabla_ventas_def)
qed

section \<open>Missing text cells\<close>





section \<open>The selection of the delimiter\<close>

lemma conteos_Nil: "conteos leer [] = []"
  by (simp add: conteos_def)

lemma conteos_Cons:
  "conteos leer (c # cs) =
     (case leer c of Inl e \<Rightarrow> conteos leer cs | Inr t \<Rightarrow> (c, length (columns t)) # conteos leer cs)"
  by (simp add: conteos_def split: sum.splits)

lemma regla_Cons_ge:
  assumes "\<forall>(c', k)\<in>set xs. k \<le> n"
  shows "regla_seleccion ((c, n) # xs) = c"
proof -
  have "Max (insert n (snd ` set xs)) = n"
    using assms by (intro Max_eqI) auto
  then show ?thesis by (simp add: regla_seleccion_def)
qed

lemma regla_Cons_lt:
  assumes "\<exists>(c', k)\<in>set xs. n < k"
  shows "regla_seleccion ((c, n) # xs) = regla_seleccion xs"
proof -
  from assms obtain c' k where ck: "(c', k) \<in> set xs" "n < k" by auto
  then have ne: "xs \<noteq> []" by auto
  have fin: "finite (snd ` set xs)" by simp
  from ck have "k \<in> snd ` set xs" by force
  then have "k \<le> Max (snd ` set xs)" using fin by simp
  with ck have lt: "n < Max (snd ` set xs)" by simp
  have m: "Max (insert n (snd ` set xs)) = Max (snd ` set xs)"
    using ne lt by (simp add: max_def)
  show ?thesis using ne lt by (simp add: regla_seleccion_def m)
qed

lemma probar_separadores_regla:
  "fst (probar_separadores leer cs (b, m)) =
     (if \<exists>(c, k)\<in>set (conteos leer cs). m < k then regla_seleccion (conteos leer cs) else b)"
proof (induction cs arbitrary: b m)
  case Nil
  then show ?case by (simp add: conteos_Nil)
next
  case (Cons c cs)
  show ?case
  proof (cases "leer c")
    case (Inl e)
    then show ?thesis using Cons.IH[of b m] by (simp add: conteos_Cons)
  next
    case (Inr t)
    let ?n = "length (columns t)"
    show ?thesis
    proof (cases "m < ?n")
      case True
      show ?thesis
      proof (cases "\<exists>(c', k)\<in>set (conteos leer cs). ?n < k")
        case True
        with \<open>m < ?n\<close> Inr Cons.IH[of c ?n] regla_Cons_lt[OF True, of c] show ?thesis
          by (simp add: conteos_Cons)
      next
        case False
        then have "\<forall>(c', k)\<in>set (conteos leer cs). k \<le> ?n" by auto
        from regla_Cons_ge[OF this, of c] False \<open>m < ?n\<close> Inr Cons.IH[of c ?n] show ?thesis
          by (simp add: conteos_Cons)
      qed
    next
      case False
      show ?thesis
      proof (cases "\<exists>(c', k)\<in>set (conteos leer cs). m < k")
        case True
        then obtain c' k where "(c', k) \<in> set (conteos leer cs)" and "m < k" by auto
        with False have "(c', k) \<in> set (conteos leer cs)" and "?n < k" by simp_all
        then have "\<exists>(c', k)\<in>set (conteos leer cs). ?n < k" by blast
        from regla_Cons_lt[OF this, of c] True False Inr Cons.IH[of b m] show ?thesis
          by (simp add: conteos_Cons)
      next
        case F2: False
        with False Inr Cons.IH[of b m] show ?thesis
          by (simp add: conteos_Cons)
      qed
    qed
  qed
qed

lemma conteos_positivos:
  assumes "\<forall>sep\<in>set cs. \<forall>t. leer sep = Inr t \<longrightarrow> columns t \<noteq> []"
  shows "\<forall>(c, k)\<in>set (conteos leer cs). 0 < k"
  using assms by (induction cs) (auto simp: conteos_Nil conteos_Cons split: sum.splits)

text \<open>
  Claim C3. The detection tries the candidates comma, semicolon, tab and pipe in this
  order, each by a trial parse of the first rows, and records the one given by the
  selection rule: maximum column count, the earlier candidate on a tie, comma when
  every trial fails; it records comma as well when the sample cannot be read. A
  successful trial parse has at least one column, as the library guarantees.
\<close>

theorem detectar_separador_regla:
  assumes "\<forall>sep\<in>set separadores_comunes. \<forall>t.
             read_csv_nrows env (ruta_archivo d) sep (codificacion d) = Inr t \<longrightarrow> columns t \<noteq> []"
  shows "resultado (detectar_separador env d) = Inr ()
         \<and> estado (detectar_separador env d) =
             d\<lparr>separador_detectado :=
                 Some (case leer_lineas env (ruta_archivo d) (codificacion d) of
                         Inl e \<Rightarrow> '',''
                       | Inr lineas \<Rightarrow>
                           regla_seleccion
                             (conteos (\<lambda>sep. read_csv_nrows env (ruta_archivo d) sep (codificacion d))
                                ['','', '';'', [CHR 0x09], ''|'']))\<rparr>"
proof -
  let ?leer = "\<lambda>sep. read_csv_nrows env (ruta_archivo d) sep (codificacion d)"
  let ?xs = "conteos ?leer separadores_comunes"
  from conteos_positivos[OF assms] have pos: "\<forall>(c, k)\<in>set ?xs. 0 < k" .
  have "fst (probar_separadores ?leer separadores_comunes ('','', 0)) = regla_seleccion ?xs"
  proof (cases "?xs = []")
    case True
    then show ?thesis by (simp add: probar_separadores_regla regla_seleccion_def)
  next
    case False
    then obtain c k where "(c, k) \<in> set ?xs" by (cases ?xs) auto
    with pos have "\<exists>(c, k)\<in>set ?xs. 0 < k" by blast
    then show ?thesis by (simp add: probar_separadores_regla)
  qed
  then have mejor: "probar_separadores ?leer separadores_comunes ('','', 0)
                      = (regla_seleccion ?xs, snd (probar_separadores ?leer separadores_comunes ('','', 0)))"
    by (metis prod.collapse)
  show ?thesis
  proof (cases "leer_lineas env (ruta_archivo d) (codificacion d)")
    case (Inl e)
    then show ?thesis by (simp add: detectar_separador_def resultado_def estado_def)
  next
    case (Inr lineas)
    have "detectar_separador env d =
            (Inr (), d\<lparr>separador_detectado := Some (regla_seleccion ?xs)\<rparr>,
             [MsgDetectandoSeparador, MsgSeparadorDetectado (regla_seleccion ?xs)])"
      unfolding detectar_separador_def Inr sum.case by (subst mejor) simp
    then show ?thesis using Inr
      by (simp add: resultado_def estado_def separadores_comunes_def)
  qed
qed

theorem detectar_separador_regla_witness:
  "resultado (detectar_separador entorno_ejemplo csv_ejemplo) = Inr ()
   \<and> estado (detectar_separador entorno_ejemplo csv_ejemplo) = csv_ejemplo\<lparr>separador_detectado := Some '';''\<rparr>"
proof -
  have h: "\<forall>sep\<in>set separadores_comunes. \<forall>t.
       read_csv_nrows entorno_ejemplo (ruta_archivo csv_ejemplo) sep (codificacion csv_ejemplo) = Inr t
         \<longrightarrow> columns t \<noteq> []"
    by (simp add: separadores_comunes_def entorno_ejemplo_def columns_def
        tabla_una_columna_def tabla_tres_columnas_def)
  have c: "conteos (\<lambda>sep. read_csv_nrows entorno_ejemplo (ruta_archivo csv_ejemplo) sep (codificacion csv_ejemplo))
             ['','', '';'', [CHR 0x09], ''|''] = [('','', 1), ('';'', 3), (''|'', 3)]"
    by (simp add: conteos_def entorno_ejemplo_def columns_def
        tabla_una_columna_def tabla_tres_columnas_def)
  have r: "regla_seleccion [('','', 1), ('';'', 3), (''|'', 3)] = '';''"
    by (simp add: regla_seleccion_def)
  from detectar_separador_regla[OF h] show ?thesis
    unfolding c r by (simp add: entorno_ejemplo_def)
qed

section \<open>The two loaders, step by step\<close>

lemma validar_extension_csv_forma:
  "\<exists>avisos. validar_extension_csv d = (Inr True, d, avisos)"
  by (simp add: validar_extension_csv_def Let_def)

lemma validar_extension_excel_forma:
  "\<exists>avisos. validar_extension_excel d = (Inr True, d, avisos)"
  by (simp add: validar_extension_excel_def Let_def)

lemma detectar_codificacion_forma:
  "\<exists>c avisos. detectar_codificacion env d = (Inr (), d\<lparr>codificacion_detectada := c\<rparr>, avisos)"
  by (auto simp: detectar_codificacion_def split: sum.splits)

lemma detectar_separador_forma:
  "\<exists>s avisos. detectar_separador env d = (Inr (), d\<lparr>separador_detectado := s\<rparr>, avisos)"
  by (auto simp: detectar_separador_def split: sum.splits prod.splits)

lemma antes_de_leer_forma:
  "\<exists>c s. antes_de_leer env d = d\<lparr>separador_detectado := s, codificacion_detectada := c\<rparr>"
proof -
  have a: "\<exists>c. (if \<not> verdadero (attr_codificacion d) then estado (detectar_codificacion env d) else d)
            = d\<lparr>codificacion_detectada := c\<rparr>"
    using detectar_codificacion_forma[of env d]
    by (cases "verdadero (attr_codificacion d)") (auto simp: estado_def intro: exI[of _ "codificacion_detectada d"])
  then obtain c where c: "(if \<not> verdadero (attr_codificacion d) then estado (detectar_codificacion env d) else d)
            = d\<lparr>codificacion_detectada := c\<rparr>" by blast
  let ?d1 = "d\<lparr>codificacion_detectada := c\<rparr>"
  have "\<exists>s. (if \<not> verdadero (attr_separador ?d1) then estado (detectar_separador env ?d1) else ?d1)
            = ?d1\<lparr>separador_detectado := s\<rparr>"
    using detectar_separador_forma[of env ?d1]
    by (cases "verdadero (attr_separador ?d1)") (auto simp: estado_def intro: exI[of _ "separador_detectado d"])
  then obtain s where "(if \<not> verdadero (attr_separador ?d1) then estado (detectar_separador env ?d1) else ?d1)
            = ?d1\<lparr>separador_detectado := s\<rparr>" by blast
  with c have "antes_de_leer env d = d\<lparr>separador_detectado := s, codificacion_detectada := c\<rparr>"
    by (simp add: antes_de_leer_def Let_def)
  then show ?thesis by blast
qed

lemma luego_Inr: "luego (Inr a, s, out) f = anteponer out (f a s)"
  by (simp add: luego_def anteponer_def)

lemma anteponer_anteponer: "anteponer o1 (anteponer o2 m) = anteponer (o1 @ o2) m"
  by (simp add: anteponer_def split: prod.splits)

lemma anteponer_tupla: "anteponer o1 (r, s, o2) = (r, s, o1 @ o2)"
  by (simp add: anteponer_def)

lemma try_except_anteponer: "try_except (anteponer o1 m) h = anteponer o1 (try_except m h)"
  by (cases m rule: prod_cases3) (auto simp: try_except_def anteponer_def split: sum.splits prod.splits)

lemma try_except_Inr: "try_except (Inr a, s, out) h = (Inr a, s, out)"
  by (simp add: try_except_def)

lemma resultado_anteponer [simp]: "resultado (anteponer o1 m) = resultado m"
  by (simp add: anteponer_def resultado_def split: prod.splits)

lemma estado_anteponer [simp]: "estado (anteponer o1 m) = estado m"
  by (simp add: anteponer_def estado_def split: prod.splits)

lemma salida_anteponer [simp]: "salida (anteponer o1 m) = o1 @ salida m"
  by (simp add: anteponer_def salida_def split: prod.splits)

lemma cargar_datos_csv_forma:
  "\<exists>a1 a3. cargar_datos_csv env d =
     anteponer ([MsgIniciandoCargaCSV (ruta_archivo d)] @ a1
                @ salida (if \<not> verdadero (attr_codificacion d) then detectar_codificacion env d
                          else retornar () d) @ a3)
      (case read_csv env (ruta_archivo d) (separador (antes_de_leer env d)) (codificacion (antes_de_leer env d)) of
        Inl e \<Rightarrow> (Inr False, antes_de_leer env d, [MsgErrorLeerCSV e, MsgNoSePudieronCargarCSV])
      | Inr t \<Rightarrow>
          try_except
            (anteponer [MsgCSVCargado (separador (antes_de_leer env d)) (codificacion (antes_de_leer env d))
                       (length (filas t)) (length (columns t))]
               (despues_de_leer t (antes_de_leer env d)))
            (\<lambda>e d. luego (imprimir (manejar_excepcion_csv e (ruta_archivo d)) d) (\<lambda>_ d. retornar False d)))"
proof -
  obtain a1 where a1: "validar_extension_csv d = (Inr True, d, a1)"
    using validar_extension_csv_forma by blast
  let ?m2 = "if \<not> verdadero (attr_codificacion d) then detectar_codificacion env d else retornar () d"
  obtain c a2 where a2: "?m2 = (Inr (), d\<lparr>codificacion_detectada := c\<rparr>, a2)"
    using detectar_codificacion_forma[of env d]
    by (cases "verdadero (attr_codificacion d)") (auto simp: retornar_def intro: that[of "codificacion_detectada d"])
  let ?d1 = "d\<lparr>codificacion_detectada := c\<rparr>"
  let ?m3 = "if \<not> verdadero (attr_separador ?d1) then detectar_separador env ?d1 else retornar () ?d1"
  obtain s a3 where a3: "?m3 = (Inr (), ?d1\<lparr>separador_detectado := s\<rparr>, a3)"
    using detectar_separador_forma[of env ?d1]
    by (cases "verdadero (attr_separador ?d1)") (auto simp: retornar_def intro: that[of "separador_detectado d"])
  let ?d2 = "?d1\<lparr>separador_detectado := s\<rparr>"
  have antes: "antes_de_leer env d = ?d2"
    using a2 a3 unfolding antes_de_leer_def Let_def
    by (cases "verdadero (attr_codificacion d)"; cases "verdadero (attr_separador ?d1)")
       (simp_all add: estado_def retornar_def)
  have sep: "separador (?d2\<lparr>dataframe := Some t, esta_cargado := True\<rparr>) = separador ?d2"
    and cod: "codificacion (?d2\<lparr>dataframe := Some t, esta_cargado := True\<rparr>) = codificacion ?d2" for t
    by (simp_all add: separador_def codificacion_def)
  have "cargar_datos_csv env d =
     anteponer ([MsgIniciandoCargaCSV (ruta_archivo d)] @ a1 @ a2 @ a3)
      (case read_csv env (ruta_archivo d) (separador ?d2) (codificacion ?d2) of
        Inl e \<Rightarrow> (Inr False, ?d2, [MsgErrorLeerCSV e, MsgNoSePudieronCargarCSV])
      | Inr t \<Rightarrow>
          try_except
            (anteponer [MsgCSVCargado (separador ?d2) (codificacion ?d2)
                       (length (filas t)) (length (columns t))]
               (despues_de_leer t ?d2))
            (\<lambda>e d. luego (imprimir (manejar_excepcion_csv e (ruta_archivo d)) d) (\<lambda>_ d. retornar False d)))"
  proof (cases "read_csv env (ruta_archivo d) (separador ?d2) (codificacion ?d2)")
    case (Inl e)
    then have l: "leer_archivo_csv env ?d2 = (Inr None, ?d2, [MsgErrorLeerCSV e])"
      by (simp add: leer_archivo_csv_def)
    show ?thesis unfolding cargar_datos_csv_def imprimir_def
      by (simp only: luego_Inr a1 a2[unfolded retornar_def] a3[unfolded retornar_def] l
            not_True_eq_False if_False Inl sum.case option.case
            retornar_def anteponer_anteponer try_except_anteponer anteponer_tupla try_except_Inr
            append_Nil2 append.simps append_assoc)
  next
    case (Inr t)
    then have l: "leer_archivo_csv env ?d2 = (Inr (Some t), ?d2, [])"
      by (simp add: leer_archivo_csv_def)
    have st: "dataframe_setter (PyDataFrame t) ?d2 = (Inr (), ?d2\<lparr>dataframe := Some t, esta_cargado := True\<rparr>, [])"
      by (simp add: dataframe_setter_def)
    show ?thesis unfolding cargar_datos_csv_def imprimir_def despues_de_leer_def
      by (simp only: luego_Inr a1 a2[unfolded retornar_def] a3[unfolded retornar_def] l st
            not_True_eq_False if_False Inr sum.case option.case retornar_def
            anteponer_anteponer try_except_anteponer sep cod
            append_Nil2 append.simps append_assoc)
  qed
  moreover have "salida ?m2 = a2" by (simp add: a2 salida_def)
  ultimately show ?thesis unfolding antes
    by (intro exI[of _ a1] exI[of _ a3]) (simp only:)
qed


lemma cargar_datos_excel_forma:
  "cargar_datos_excel env d =
     anteponer ([MsgIniciandoCargaExcel (ruta_archivo d)] @ salida (validar_extension_excel d)
                @ salida (obtener_hojas_disponibles env d) @ snd (parametros_lectura (con_hojas env d)))
      (case read_excel env (ruta_archivo d) (fst (parametros_lectura (con_hojas env d))) of
        Inl e \<Rightarrow> (Inr False, con_hojas env d, [MsgErrorLeerExcel e, MsgNoSePudieronCargarExcel])
      | Inr t \<Rightarrow>
          try_except
            (anteponer [MsgExcelCargado (nombre_hoja d) (length (filas t)) (length (columns t))]
               (despues_de_leer t (con_hojas env d)))
            (\<lambda>e d. luego (imprimir (manejar_excepcion_excel e (ruta_archivo d)) d) (\<lambda>_ d. retornar False d)))"
proof -
  obtain a1 where a1: "validar_extension_excel d = (Inr True, d, a1)"
    using validar_extension_excel_forma by blast
  obtain hs a2 where a2: "obtener_hojas_disponibles env d = (Inr (), d\<lparr>hojas_disponibles := hs\<rparr>, a2)"
    by (cases "sheet_names env (ruta_archivo d)") (auto simp: obtener_hojas_disponibles_def)
  let ?d1 = "d\<lparr>hojas_disponibles := hs\<rparr>"
  have d1: "con_hojas env d = ?d1" by (simp add: con_hojas_def a2 estado_def)
  obtain h av where p: "parametros_lectura ?d1 = (h, av)" by (cases "parametros_lectura ?d1")
  have nh: "nombre_hoja (?d1\<lparr>dataframe := Some t, esta_cargado := True\<rparr>) = nombre_hoja d" for t
    by simp
  have sal: "salida (validar_extension_excel d) = a1" "salida (obtener_hojas_disponibles env d) = a2"
    by (simp_all add: a1 a2 salida_def)
  show ?thesis unfolding d1 sal p fst_conv snd_conv
  proof (cases "read_excel env (ruta_archivo d) h")
    case (Inl e)
    then have l: "leer_archivo_excel env ?d1 = (Inr None, ?d1, av @ [MsgErrorLeerExcel e])"
      by (simp add: leer_archivo_excel_def p)
    show "cargar_datos_excel env d =
      anteponer ([MsgIniciandoCargaExcel (ruta_archivo d)] @ a1 @ a2 @ av)
       (case read_excel env (ruta_archivo d) h of
          Inl e \<Rightarrow> (Inr False, ?d1, [MsgErrorLeerExcel e, MsgNoSePudieronCargarExcel])
        | Inr t \<Rightarrow>
            try_except
              (anteponer [MsgExcelCargado (nombre_hoja d) (length (filas t)) (length (columns t))]
                 (despues_de_leer t ?d1))
              (\<lambda>e d. luego (imprimir (manejar_excepcion_excel e (ruta_archivo d)) d) (\<lambda>_ d. retornar False d)))"
      unfolding cargar_datos_excel_def imprimir_def
      by (simp only: luego_Inr a1 a2 l not_True_eq_False if_False Inl sum.case option.case
            retornar_def anteponer_anteponer try_except_anteponer anteponer_tupla try_except_Inr
            append_Nil2 append.simps append_assoc)
  next
    case (Inr t)
    then have l: "leer_archivo_excel env ?d1 = (Inr (Some t), ?d1, av)"
      by (simp add: leer_archivo_excel_def p)
    have st: "dataframe_setter (PyDataFrame t) ?d1 = (Inr (), ?d1\<lparr>dataframe := Some t, esta_cargado := True\<rparr>, [])"
      by (simp add: dataframe_setter_def)
    show "cargar_datos_excel env d =
      anteponer ([MsgIniciandoCargaExcel (ruta_archivo d)] @ a1 @ a2 @ av)
       (case read_excel env (ruta_archivo d) h of
          Inl e \<Rightarrow> (Inr False, ?d1, [MsgErrorLeerExcel e, MsgNoSePudieronCargarExcel])
        | Inr t \<Rightarrow>
            try_except
              (anteponer [MsgExcelCargado (nombre_hoja d) (length (filas t)) (length (columns t))]
                 (despues_de_leer t ?d1))
              (\<lambda>e d. luego (imprimir (manejar_excepcion_excel e (ruta_archivo d)) d) (\<lambda>_ d. retornar False d)))"
      unfolding cargar_datos_excel_def imprimir_def despues_de_leer_def
      by (simp only: luego_Inr a1 a2 l st not_True_eq_False if_False Inr sum.case option.case
            retornar_def anteponer_anteponer try_except_anteponer nh
            append_Nil2 append.simps append_assoc)
  qed
qed

lemma validar_forma:
  "esta_cargado d \<Longrightarrow> dataframe d = Some t \<Longrightarrow>
   \<exists>b avisos. validar_integridad_datos d = (Inr b, d, avisos)"
  by (simp add: validar_integridad_datos_def Let_def)

lemma limpiar_forma:
  "\<exists>x. estado (limpiar_y_transformar_datos d) = d\<lparr>dataframe := x\<rparr>
       \<and> (x = None \<longleftrightarrow> dataframe d = None)"
proof (cases "esta_cargado d")
  case False
  then show ?thesis
    by (auto simp: limpiar_y_transformar_datos_def estado_def intro: exI[of _ "dataframe d"])
next
  case True
  show ?thesis
  proof (cases "dataframe d")
    case None
    with True show ?thesis
      by (auto simp: limpiar_y_transformar_datos_def estado_def intro: exI[of _ "dataframe d"])
  next
    case (Some t)
    with True show ?thesis
      by (auto simp: limpiar_y_transformar_datos_def estado_def Let_def split: prod.splits option.splits)
  qed
qed

lemma despues_de_leer_forma:
  "\<exists>t' r. estado (despues_de_leer t d) = d\<lparr>dataframe := Some t', esta_cargado := True\<rparr>
         \<and> resultado (despues_de_leer t d) = r \<and> (r = Inr True \<or> (\<exists>e. r = Inl e))"
proof -
  let ?d3 = "d\<lparr>dataframe := Some t, esta_cargado := True\<rparr>"
  obtain b av where v: "validar_integridad_datos ?d3 = (Inr b, ?d3, av)"
    using validar_forma[of ?d3 t] by auto
  show ?thesis
  proof (cases b)
    case False
    with v show ?thesis
      by (simp add: despues_de_leer_def luego_Inr retornar_def anteponer_tupla estado_def resultado_def;
          blast)
  next
    case True
    obtain r s out where l: "limpiar_y_transformar_datos ?d3 = (r, s, out)"
      by (cases "limpiar_y_transformar_datos ?d3" rule: prod_cases3)
    from limpiar_forma[of ?d3] l obtain x where x: "s = ?d3\<lparr>dataframe := x\<rparr>" "x \<noteq> None"
      by (auto simp: estado_def)
    from x(2) obtain t' where "x = Some t'" by auto
    with x(1) have "s = d\<lparr>dataframe := Some t', esta_cargado := True\<rparr>" by simp
    with v True l show ?thesis
      by (cases r; simp add: despues_de_leer_def luego_Inr luego_def retornar_def anteponer_tupla
          estado_def resultado_def; blast)
  qed
qed

lemma try_except_csv:
  "resultado (try_except m (\<lambda>e d. luego (imprimir (manejar_excepcion_csv e (ruta_archivo d)) d) (\<lambda>_ d. retornar False d)))
     = (case resultado m of Inl e \<Rightarrow> Inr False | Inr b \<Rightarrow> Inr b)"
  "estado (try_except m (\<lambda>e d. luego (imprimir (manejar_excepcion_csv e (ruta_archivo d)) d) (\<lambda>_ d. retornar False d)))
     = estado m"
  by (cases m rule: prod_cases3;
      simp add: try_except_def luego_def imprimir_def retornar_def resultado_def estado_def split: sum.splits)+

lemma try_except_excel:
  "resultado (try_except m (\<lambda>e d. luego (imprimir (manejar_excepcion_excel e (ruta_archivo d)) d) (\<lambda>_ d. retornar False d)))
     = (case resultado m of Inl e \<Rightarrow> Inr False | Inr b \<Rightarrow> Inr b)"
  "estado (try_except m (\<lambda>e d. luego (imprimir (manejar_excepcion_excel e (ruta_archivo d)) d) (\<lambda>_ d. retornar False d)))
     = estado m"
  by (cases m rule: prod_cases3;
      simp add: try_except_def luego_def imprimir_def retornar_def resultado_def estado_def split: sum.splits)+

lemma cargar_datos_csv_casos:
  "(\<exists>e. read_csv env (ruta_archivo d) (separador (antes_de_leer env d)) (codificacion (antes_de_leer env d)) = Inl e
        \<and> resultado (cargar_datos_csv env d) = Inr False
        \<and> estado (cargar_datos_csv env d) = antes_de_leer env d)
   \<or> (\<exists>t t' b. read_csv env (ruta_archivo d) (separador (antes_de_leer env d)) (codificacion (antes_de_leer env d)) = Inr t
        \<and> resultado (cargar_datos_csv env d) = Inr b
        \<and> estado (cargar_datos_csv env d) = (antes_de_leer env d)\<lparr>dataframe := Some t', esta_cargado := True\<rparr>)"
proof -
  let ?d2 = "antes_de_leer env d"
  obtain antes where f: "cargar_datos_csv env d =
     anteponer antes
      (case read_csv env (ruta_archivo d) (separador ?d2) (codificacion ?d2) of
        Inl e \<Rightarrow> (Inr False, ?d2, [MsgErrorLeerCSV e, MsgNoSePudieronCargarCSV])
      | Inr t \<Rightarrow>
          try_except
            (anteponer [MsgCSVCargado (separador ?d2) (codificacion ?d2) (length (filas t)) (length (columns t))]
               (despues_de_leer t ?d2))
            (\<lambda>e d. luego (imprimir (manejar_excepcion_csv e (ruta_archivo d)) d) (\<lambda>_ d. retornar False d)))"
    using cargar_datos_csv_forma by blast
  show ?thesis
  proof (cases "read_csv env (ruta_archivo d) (separador ?d2) (codificacion ?d2)")
    case (Inl e)
    with f show ?thesis by (simp add: resultado_def estado_def anteponer_tupla)
  next
    case (Inr t)
    from despues_de_leer_forma[of t ?d2] obtain t' r where
      e: "estado (despues_de_leer t ?d2) = ?d2\<lparr>dataframe := Some t', esta_cargado := True\<rparr>"
      and r: "resultado (despues_de_leer t ?d2) = r" "r = Inr True \<or> (\<exists>e. r = Inl e)" by blast
    from r have "\<exists>b. (case r of Inl e \<Rightarrow> Inr False | Inr b \<Rightarrow> Inr b) = (Inr b :: excepcion + bool)"
      by auto
    with f Inr e r(1) show ?thesis by (simp add: try_except_csv; blast)
  qed
qed

lemma cargar_datos_excel_casos:
  "(\<exists>e. read_excel env (ruta_archivo d) (fst (parametros_lectura (con_hojas env d))) = Inl e
        \<and> resultado (cargar_datos_excel env d) = Inr False
        \<and> estado (cargar_datos_excel env d) = con_hojas env d)
   \<or> (\<exists>t t' b. read_excel env (ruta_archivo d) (fst (parametros_lectura (con_hojas env d))) = Inr t
        \<and> resultado (cargar_datos_excel env d) = Inr b
        \<and> estado (cargar_datos_excel env d) = (con_hojas env d)\<lparr>dataframe := Some t', esta_cargado := True\<rparr>)"
proof -
  let ?d2 = "con_hojas env d"
  note f = cargar_datos_excel_forma[of env d]
  show ?thesis
  proof (cases "read_excel env (ruta_archivo d) (fst (parametros_lectura ?d2))")
    case (Inl e)
    with f show ?thesis by (simp add: resultado_def estado_def anteponer_tupla)
  next
    case (Inr t)
    from despues_de_leer_forma[of t ?d2] obtain t' r where
      e: "estado (despues_de_leer t ?d2) = ?d2\<lparr>dataframe := Some t', esta_cargado := True\<rparr>"
      and r: "resultado (despues_de_leer t ?d2) = r" "r = Inr True \<or> (\<exists>e. r = Inl e)" by blast
    from r have "\<exists>b. (case r of Inl e \<Rightarrow> Inr False | Inr b \<Rightarrow> Inr b) = (Inr b :: excepcion + bool)"
      by auto
    with f Inr e r(1) show ?thesis by (simp add: try_except_excel; blast)
  qed
qed

lemma antes_de_leer_campos:
  "attr_codificacion (antes_de_leer env d) = attr_codificacion d"
  "attr_separador (antes_de_leer env d) = attr_separador d"
  "dataframe (antes_de_leer env d) = dataframe d"
  "esta_cargado (antes_de_leer env d) = esta_cargado d"
  "ruta_archivo (antes_de_leer env d) = ruta_archivo d"
  using antes_de_leer_forma[of env d] by auto

lemma antes_de_leer_codificacion:
  "\<not> verdadero (attr_codificacion d) \<Longrightarrow>
   codificacion_detectada (antes_de_leer env d) = codificacion_detectada (estado (detectar_codificacion env d))"
proof -
  assume a: "\<not> verdadero (attr_codificacion d)"
  let ?d1 = "estado (detectar_codificacion env d)"
  from detectar_separador_forma[of env ?d1]
  have "codificacion_detectada (estado (detectar_separador env ?d1)) = codificacion_detectada ?d1"
    by (auto simp: estado_def)
  with a show ?thesis by (simp add: antes_de_leer_def Let_def)
qed

lemma cargar_datos_csv_estado:
  "\<exists>x y. estado (cargar_datos_csv env d) = (antes_de_leer env d)\<lparr>dataframe := x, esta_cargado := y\<rparr>"
proof -
  have "antes_de_leer env d = (antes_de_leer env d)\<lparr>dataframe := dataframe (antes_de_leer env d),
          esta_cargado := esta_cargado (antes_de_leer env d)\<rparr>" by simp
  with cargar_datos_csv_casos[of env d] show ?thesis by metis
qed


lemma con_hojas_campos:
  "dataframe (con_hojas env d) = dataframe d"
  "esta_cargado (con_hojas env d) = esta_cargado d"
  "nombre_hoja (con_hojas env d) = nombre_hoja d"
  "ruta_archivo (con_hojas env d) = ruta_archivo d"
  "hojas_disponibles (con_hojas env d) = (case sheet_names env (ruta_archivo d) of Inr hs \<Rightarrow> hs | Inl e \<Rightarrow> [])"
  by (simp_all add: con_hojas_def obtener_hojas_disponibles_def estado_def split: sum.splits)

section \<open>Fallback of the encoding detection\<close>

text \<open>
  The \<open>except\<close> branch. With no explicit encoding, when the detection step raises (the
  file cannot be opened or read, or the detector raises), the loader records
  \<open>utf-8\<close> as the detected and effective encoding and prints the fallback lines; the
  detection returns normally, the load returns a boolean, and \<open>utf-8\<close> is the
  effective encoding after the load.
\<close>

lemma detectar_codificacion_fallback:
  assumes "\<not> verdadero (attr_codificacion d)"
    and "chardet_detect env (ruta_archivo d) = Inl e"
  shows "detectar_codificacion env d =
           (Inr (), d\<lparr>codificacion_detectada := Some ''utf-8''\<rparr>,
            [MsgDetectandoCodificacion, MsgNoSePudoDetectarCodificacion e,
             MsgUsandoCodificacionPorDefecto])
         \<and> codificacion (estado (detectar_codificacion env d)) = Some ''utf-8''
         \<and> (\<exists>b. resultado (cargar_datos_csv env d) = Inr b)
         \<and> codificacion (estado (cargar_datos_csv env d)) = Some ''utf-8''
         \<and> MsgUsandoCodificacionPorDefecto \<in> set (salida (cargar_datos_csv env d))"
proof -
  have det: "detectar_codificacion env d =
           (Inr (), d\<lparr>codificacion_detectada := Some ''utf-8''\<rparr>,
            [MsgDetectandoCodificacion, MsgNoSePudoDetectarCodificacion e,
             MsgUsandoCodificacionPorDefecto])"
    using assms(2) by (simp add: detectar_codificacion_def)
  have c1: "codificacion (estado (detectar_codificacion env d)) = Some ''utf-8''"
    using assms(1) by (simp add: det estado_def codificacion_def py_or_def)
  have res: "\<exists>b. resultado (cargar_datos_csv env d) = Inr b"
    using cargar_datos_csv_casos[of env d] by blast
  from cargar_datos_csv_estado[of env d] obtain x y where
    "estado (cargar_datos_csv env d) = (antes_de_leer env d)\<lparr>dataframe := x, esta_cargado := y\<rparr>"
    by blast
  then have "codificacion (estado (cargar_datos_csv env d)) = codificacion (antes_de_leer env d)"
    by (simp add: codificacion_def)
  also have "\<dots> = Some ''utf-8''"
    using assms(1) antes_de_leer_codificacion[OF assms(1), of env]
    by (simp add: codificacion_def py_or_def antes_de_leer_campos det estado_def)
  finally have c2: "codificacion (estado (cargar_datos_csv env d)) = Some ''utf-8''" .
  from cargar_datos_csv_forma[of env d] obtain a1 a3 m where
    "cargar_datos_csv env d =
       anteponer ([MsgIniciandoCargaCSV (ruta_archivo d)] @ a1
                  @ salida (if \<not> verdadero (attr_codificacion d) then detectar_codificacion env d
                            else retornar () d) @ a3) m"
    by blast
  then have "MsgUsandoCodificacionPorDefecto \<in> set (salida (cargar_datos_csv env d))"
    using assms(1) by (simp add: det salida_def[of "(Inr (), _, _)"])
  with det c1 res c2 show ?thesis by blast
qed

lemma detectar_codificacion_fallback_ejemplo:
  "\<not> verdadero (attr_codificacion csv_ejemplo)
   \<and> chardet_detect entorno_ejemplo (ruta_archivo csv_ejemplo) = Inl PermissionError
   \<and> detectar_codificacion entorno_ejemplo csv_ejemplo =
       (Inr (), csv_ejemplo\<lparr>codificacion_detectada := Some ''utf-8''\<rparr>,
        [MsgDetectandoCodificacion, MsgNoSePudoDetectarCodificacion PermissionError,
         MsgUsandoCodificacionPorDefecto])
   \<and> (\<exists>b. resultado (cargar_datos_csv entorno_ejemplo csv_ejemplo) = Inr b)
   \<and> codificacion (estado (cargar_datos_csv entorno_ejemplo csv_ejemplo)) = Some ''utf-8''
   \<and> MsgUsandoCodificacionPorDefecto \<in> set (salida (cargar_datos_csv entorno_ejemplo csv_ejemplo))"
proof -
  have h1: "\<not> verdadero (attr_codificacion csv_ejemplo)"
    by (simp add: csv_ejemplo_def DatasetCSV_init_def)
  have h2: "chardet_detect entorno_ejemplo (ruta_archivo csv_ejemplo) = Inl PermissionError"
    by (simp add: entorno_ejemplo_def)
  from detectar_codificacion_fallback[OF h1 h2] h1 h2 show ?thesis by simp
qed

text \<open>
  The branch without exception. A detector that returns normally is never a failure
  for the code, also when it has found no candidate: the detected encoding is then
  \<open>None\<close>, and no fallback is printed.
\<close>

lemma detectar_codificacion_sin_candidato:
  assumes "chardet_detect env (ruta_archivo d) = Inr res" and "encoding res = None"
  shows "codificacion_detectada (estado (detectar_codificacion env d)) = None
         \<and> MsgUsandoCodificacionPorDefecto \<notin> set (salida (detectar_codificacion env d))"
  using assms by (simp add: detectar_codificacion_def estado_def salida_def)

lemma detectar_sin_candidato_ejemplo:
  "detectar_codificacion entorno_sin_candidato csv_ejemplo =
     (Inr (), csv_ejemplo\<lparr>codificacion_detectada := None\<rparr>,
      [MsgDetectandoCodificacion, MsgCodificacionDetectada None 0])"
  by (simp add: detectar_codificacion_def entorno_sin_candidato_def)

lemma probar_sin_candidato:
  "probar_separadores (\<lambda>sep. read_csv_nrows entorno_sin_candidato ''datos.csv'' sep None)
     separadores_comunes ('','', 0) = ('';'', 3)"
  by (simp add: separadores_comunes_def entorno_sin_candidato_def entorno_ejemplo_def columns_def
      tabla_una_columna_def tabla_tres_columnas_def)

lemma cargar_sin_candidato:
  "cargar_datos_csv entorno_sin_candidato csv_ejemplo =
     (Inr False,
      csv_ejemplo\<lparr>separador_detectado := Some '';'', codificacion_detectada := None\<rparr>,
      [MsgIniciandoCargaCSV ''datos.csv'',
       MsgDetectandoCodificacion, MsgCodificacionDetectada None 0,
       MsgDetectandoSeparador, MsgSeparadorDetectado '';'',
       MsgErrorLeerCSV UnicodeDecodeError, MsgNoSePudieronCargarCSV])"
proof -
  have r: "ruta_archivo csv_ejemplo = ''datos.csv''" "attr_codificacion csv_ejemplo = None"
    "attr_separador csv_ejemplo = None" "codificacion_detectada csv_ejemplo = None"
    by (simp_all add: csv_ejemplo_def DatasetCSV_init_def)
  have v: "validar_extension_csv csv_ejemplo = (Inr True, csv_ejemplo, [])"
    by (simp add: validar_extension_csv_def r str_lower_def endswith_def)
  have ll: "leer_lineas entorno_sin_candidato x y = Inr [''a;b|c;d|e'', ''1;2|3;4|5'']" for x y
    by (simp add: entorno_sin_candidato_def entorno_ejemplo_def)
  let ?d1 = "csv_ejemplo\<lparr>codificacion_detectada := None\<rparr>"
  have c1: "codificacion ?d1 = None" by (simp add: codificacion_def py_or_def r)
  have s: "detectar_separador entorno_sin_candidato ?d1 =
     (Inr (), ?d1\<lparr>separador_detectado := Some '';''\<rparr>, [MsgDetectandoSeparador, MsgSeparadorDetectado '';''])"
    unfolding detectar_separador_def
    by (simp add: r c1 probar_sin_candidato ll)
  let ?d2 = "?d1\<lparr>separador_detectado := Some '';''\<rparr>"
  have l: "leer_archivo_csv entorno_sin_candidato ?d2 = (Inr None, ?d2, [MsgErrorLeerCSV UnicodeDecodeError])"
    by (simp add: leer_archivo_csv_def entorno_sin_candidato_def entorno_ejemplo_def)
  show ?thesis
    unfolding cargar_datos_csv_def
    by (simp add: luego_def imprimir_def retornar_def try_except_def v r detectar_sin_candidato_ejemplo s l)
qed

text \<open>
  Claim C6. The claim asks for the fallback to \<open>utf-8\<close>, logged, whenever the
  detection of the encoding fails. The code does it only when the detection raises. For
  a loader with no explicit encoding and a file for which the detector returns no
  candidate, the detection returns normally, the detected and effective encoding are
  \<open>None\<close>, after the detection and after the load, and no fallback line is printed.
\<close>

theorem detectar_codificacion_sin_fallback:
  "chardet_detect entorno_sin_candidato (ruta_archivo csv_ejemplo) = Inr \<lparr>encoding = None, confidence = 0\<rparr>
   \<and> attr_codificacion csv_ejemplo = None
   \<and> resultado (detectar_codificacion entorno_sin_candidato csv_ejemplo) = Inr ()
   \<and> codificacion (estado (detectar_codificacion entorno_sin_candidato csv_ejemplo)) = None
   \<and> MsgUsandoCodificacionPorDefecto \<notin> set (salida (detectar_codificacion entorno_sin_candidato csv_ejemplo))
   \<and> codificacion (estado (cargar_datos_csv entorno_sin_candidato csv_ejemplo)) = None
   \<and> MsgUsandoCodificacionPorDefecto \<notin> set (salida (cargar_datos_csv entorno_sin_candidato csv_ejemplo))"
  by (simp add: cargar_sin_candidato detectar_sin_candidato_ejemplo resultado_def estado_def salida_def
      codificacion_def py_or_def)
     (simp add: csv_ejemplo_def DatasetCSV_init_def entorno_sin_candidato_def)

section \<open>A load whose parse fails\<close>

text \<open>
  Claim C8. When the parse of a load fails, with the delimiter and encoding in effect
  for a CSV file, with the selected sheet for a workbook, the load returns false and
  the table and the loaded flag are those from before the load.
\<close>

theorem cargar_datos_falla_conserva_tabla:
  "(read_csv env (ruta_archivo c) (separador (antes_de_leer env c)) (codificacion (antes_de_leer env c)) = Inl e
      \<longrightarrow> resultado (cargar_datos_csv env c) = Inr False
          \<and> dataframe (estado (cargar_datos_csv env c)) = dataframe c
          \<and> esta_cargado (estado (cargar_datos_csv env c)) = esta_cargado c)
   \<and> (read_excel env (ruta_archivo x) (fst (parametros_lectura (con_hojas env x))) = Inl e'
      \<longrightarrow> resultado (cargar_datos_excel env x) = Inr False
          \<and> dataframe (estado (cargar_datos_excel env x)) = dataframe x
          \<and> esta_cargado (estado (cargar_datos_excel env x)) = esta_cargado x)"
  using cargar_datos_csv_casos[of env c] cargar_datos_excel_casos[of env x]
  by (auto simp: antes_de_leer_campos con_hojas_campos)

theorem cargar_datos_falla_conserva_tabla_witness:
  "read_csv entorno_ejemplo (ruta_archivo csv_ejemplo) (separador (antes_de_leer entorno_ejemplo csv_ejemplo))
      (codificacion (antes_de_leer entorno_ejemplo csv_ejemplo)) = Inl UnicodeDecodeError
   \<and> resultado (cargar_datos_csv entorno_ejemplo csv_ejemplo) = Inr False
   \<and> dataframe (estado (cargar_datos_csv entorno_ejemplo csv_ejemplo)) = Some tabla_ventas
   \<and> esta_cargado (estado (cargar_datos_csv entorno_ejemplo csv_ejemplo))
   \<and> read_excel entorno_ejemplo (ruta_archivo (excel_ejemplo (Some ''Q2'')))
        (fst (parametros_lectura (con_hojas entorno_ejemplo (excel_ejemplo (Some ''Q2''))))) = Inl ValueError
   \<and> resultado (cargar_datos_excel entorno_ejemplo (excel_ejemplo (Some ''Q2''))) = Inr False
   \<and> dataframe (estado (cargar_datos_excel entorno_ejemplo (excel_ejemplo (Some ''Q2'')))) = Some tabla_espacios
   \<and> esta_cargado (estado (cargar_datos_excel entorno_ejemplo (excel_ejemplo (Some ''Q2''))))"
proof -
  have h1: "read_csv entorno_ejemplo (ruta_archivo csv_ejemplo) (separador (antes_de_leer entorno_ejemplo csv_ejemplo))
      (codificacion (antes_de_leer entorno_ejemplo csv_ejemplo)) = Inl UnicodeDecodeError"
    by (simp add: entorno_ejemplo_def)
  have hs: "hojas_disponibles (con_hojas entorno_ejemplo (excel_ejemplo (Some ''Q2''))) = [''Q1'', ''Q2'']"
    unfolding con_hojas_campos by (simp add: entorno_ejemplo_def)
  have nh: "nombre_hoja (con_hojas entorno_ejemplo (excel_ejemplo (Some ''Q2''))) = Some ''Q2''"
    unfolding con_hojas_campos by (simp add: excel_ejemplo_def DatasetExcel_init_def)
  have p: "parametros_lectura (con_hojas entorno_ejemplo (excel_ejemplo (Some ''Q2''))) = (HojaNombre ''Q2'', [])"
    by (simp add: parametros_lectura_def hs nh)
  have h2: "read_excel entorno_ejemplo (ruta_archivo (excel_ejemplo (Some ''Q2'')))
        (fst (parametros_lectura (con_hojas entorno_ejemplo (excel_ejemplo (Some ''Q2''))))) = Inl ValueError"
    by (simp add: p) (simp add: entorno_ejemplo_def)
  have d: "dataframe csv_ejemplo = Some tabla_ventas" "esta_cargado csv_ejemplo"
    "dataframe (excel_ejemplo (Some ''Q2'')) = Some tabla_espacios" "esta_cargado (excel_ejemplo (Some ''Q2''))"
    by (simp_all add: csv_ejemplo_def excel_ejemplo_def)
  from cargar_datos_falla_conserva_tabla[of entorno_ejemplo csv_ejemplo UnicodeDecodeError
      "excel_ejemplo (Some ''Q2'')" ValueError] h1 h2 d
  show ?thesis by simp
qed

section \<open>The sheet that a load parses\<close>

lemma cargar_datos_excel_hojas:
  "hojas_disponibles (estado (cargar_datos_excel env d)) = hojas_enumeradas env d"
  using cargar_datos_excel_casos[of env d]
  by (auto simp: con_hojas_campos hojas_enumeradas_def)

lemma cargar_datos_excel_avisos:
  "set (snd (parametros_lectura (con_hojas env d))) \<subseteq> set (salida (cargar_datos_excel env d))"
  by (subst cargar_datos_excel_forma) auto

lemma luego_retornar:
  "estado (luego m (\<lambda>_ d. retornar v d)) = estado m"
  "resultado (luego m (\<lambda>_ d. retornar v d)) = (case resultado m of Inl e \<Rightarrow> Inl e | Inr a \<Rightarrow> Inr v)"
  by (cases m rule: prod_cases3; cases "fst m";
      simp add: luego_def retornar_def estado_def resultado_def)+

lemma despues_de_leer_explicito:
  fixes d :: "'a dataset_scheme" and t :: data_frame
  defines "d1 \<equiv> d\<lparr>dataframe := Some t, esta_cargado := True\<rparr>"
  shows "estado (despues_de_leer t d)
           = (if resultado (validar_integridad_datos d1) = Inr True
              then estado (limpiar_y_transformar_datos d1) else d1)"
    and "resultado (despues_de_leer t d)
           = (if resultado (validar_integridad_datos d1) = Inr True
              then (case resultado (limpiar_y_transformar_datos d1) of Inl e \<Rightarrow> Inl e | Inr a \<Rightarrow> Inr True)
              else Inr True)"
proof -
  obtain b av where v: "validar_integridad_datos d1 = (Inr b, d1, av)"
    using validar_forma[of d1 t] by (auto simp: d1_def)
  show "estado (despues_de_leer t d)
           = (if resultado (validar_integridad_datos d1) = Inr True
              then estado (limpiar_y_transformar_datos d1) else d1)"
    unfolding despues_de_leer_def d1_def[symmetric] v luego_Inr
    by (cases b) (simp_all add: luego_retornar resultado_def, simp add: retornar_def estado_def)
  show "resultado (despues_de_leer t d)
           = (if resultado (validar_integridad_datos d1) = Inr True
              then (case resultado (limpiar_y_transformar_datos d1) of Inl e \<Rightarrow> Inl e | Inr a \<Rightarrow> Inr True)
              else Inr True)"
    unfolding despues_de_leer_def d1_def[symmetric] v luego_Inr
    by (cases b) (simp_all add: luego_retornar, simp_all add: retornar_def resultado_def)
qed

lemma carga_la_hoja_elegida:
  "carga_la_hoja env d (fst (parametros_lectura (con_hojas env d)))"
proof -
  let ?h = "fst (parametros_lectura (con_hojas env d))"
  note f = cargar_datos_excel_forma[of env d]
  show ?thesis
  proof (cases "read_excel env (ruta_archivo d) ?h")
    case (Inl e)
    with f show ?thesis
      by (simp add: carga_la_hoja_def resultado_def estado_def salida_def anteponer_tupla)
  next
    case (Inr t)
    let ?d1 = "(con_hojas env d)\<lparr>dataframe := Some t, esta_cargado := True\<rparr>"
    let ?m = "try_except
            (anteponer [MsgExcelCargado (nombre_hoja d) (length (filas t)) (length (columns t))]
               (despues_de_leer t (con_hojas env d)))
            (\<lambda>e d. luego (imprimir (manejar_excepcion_excel e (ruta_archivo d)) d) (\<lambda>_ d. retornar False d))"
    from f Inr have c: "cargar_datos_excel env d =
       anteponer ([MsgIniciandoCargaExcel (ruta_archivo d)] @ salida (validar_extension_excel d)
                @ salida (obtener_hojas_disponibles env d) @ snd (parametros_lectura (con_hojas env d))) ?m"
      by simp
    have e: "estado (cargar_datos_excel env d)
              = (if resultado (validar_integridad_datos ?d1) = Inr True
                 then estado (limpiar_y_transformar_datos ?d1) else ?d1)"
      by (simp add: c try_except_excel despues_de_leer_explicito(1))
    have r: "resultado (cargar_datos_excel env d)
              = (if resultado (validar_integridad_datos ?d1) = Inr True
                    \<and> isl (resultado (limpiar_y_transformar_datos ?d1)) then Inr False
                 else Inr True)"
      by (simp add: c try_except_excel despues_de_leer_explicito(2) split: sum.splits)
    have s: "MsgExcelCargado (nombre_hoja d) (length (filas t)) (length (columns t))
                  \<in> set (salida (cargar_datos_excel env d))"
      by (simp add: c try_except_anteponer)
    from e r s Inr show ?thesis by (simp add: carga_la_hoja_def Let_def)
  qed
qed


text \<open>
  Claim C9. After a load the available sheets are the enumerated ones. When a sheet
  name is specified and is not among them, the load warns and parses the first sheet:
  it reads sheet 0 and stores the table that read gives. When the name is specified and
  is among them, the load parses the sheet of that name. When none is specified, the
  load parses the first sheet.
\<close>

theorem seleccion_de_hoja:
  "hojas_disponibles (estado (cargar_datos_excel env d)) = hojas_enumeradas env d
   \<and> (nombre_hoja d = Some n \<and> n \<noteq> [] \<and> n \<notin> set (hojas_enumeradas env d) \<longrightarrow>
        carga_la_hoja env d (HojaIndice 0)
        \<and> MsgHojaNoExiste n \<in> set (salida (cargar_datos_excel env d)))
   \<and> (nombre_hoja d = Some n \<and> n \<noteq> [] \<and> n \<in> set (hojas_enumeradas env d) \<longrightarrow>
        carga_la_hoja env d (HojaNombre n))
   \<and> (\<not> verdadero (nombre_hoja d) \<longrightarrow> carga_la_hoja env d (HojaIndice 0))"
proof -
  have hs: "hojas_disponibles (con_hojas env d) = hojas_enumeradas env d"
    by (simp add: con_hojas_campos hojas_enumeradas_def)
  have nh: "nombre_hoja (con_hojas env d) = nombre_hoja d" by (simp add: con_hojas_campos)
  note s = carga_la_hoja_elegida[of env d] and w = cargar_datos_excel_avisos[of env d]
  show ?thesis
  proof (intro conjI impI)
    show "hojas_disponibles (estado (cargar_datos_excel env d)) = hojas_enumeradas env d"
      by (rule cargar_datos_excel_hojas)
  next
    assume "nombre_hoja d = Some n \<and> n \<noteq> [] \<and> n \<notin> set (hojas_enumeradas env d)"
    then have p: "parametros_lectura (con_hojas env d) = (HojaIndice 0, [MsgHojaNoExiste n])"
      by (simp add: parametros_lectura_def hs nh)
    show "carga_la_hoja env d (HojaIndice 0)" using s by (simp add: p)
    show "MsgHojaNoExiste n \<in> set (salida (cargar_datos_excel env d))" using w by (simp add: p)
  next
    assume "nombre_hoja d = Some n \<and> n \<noteq> [] \<and> n \<in> set (hojas_enumeradas env d)"
    then have p: "parametros_lectura (con_hojas env d) = (HojaNombre n, [])"
      by (simp add: parametros_lectura_def hs nh)
    show "carga_la_hoja env d (HojaNombre n)" using s by (simp add: p)
  next
    assume "\<not> verdadero (nombre_hoja d)"
    then have p: "parametros_lectura (con_hojas env d) = (HojaIndice 0, [])"
      by (cases "nombre_hoja d") (simp_all add: parametros_lectura_def hs nh)
    show "carga_la_hoja env d (HojaIndice 0)" using s by (simp add: p)
  qed
qed

lemma validar_ventas_excel:
  "resultado (validar_integridad_datos
      ((con_hojas entorno_ejemplo (excel_ejemplo (Some ''Q3'')))\<lparr>dataframe := Some tabla_ventas, esta_cargado := True\<rparr>))
     = Inr False"
  by (simp add: validar_integridad_datos_def tabla_ventas_def contar_nulos_def isnull_def resultado_def Let_def)

theorem seleccion_de_hoja_witness:
  "hojas_disponibles (estado (cargar_datos_excel entorno_ejemplo (excel_ejemplo (Some ''Q3'')))) = [''Q1'', ''Q2'']
   \<and> read_excel entorno_ejemplo (ruta_archivo (excel_ejemplo (Some ''Q3''))) (HojaIndice 0) = Inr tabla_ventas
   \<and> dataframe (estado (cargar_datos_excel entorno_ejemplo (excel_ejemplo (Some ''Q3'')))) = Some tabla_ventas
   \<and> esta_cargado (estado (cargar_datos_excel entorno_ejemplo (excel_ejemplo (Some ''Q3''))))
   \<and> resultado (cargar_datos_excel entorno_ejemplo (excel_ejemplo (Some ''Q3''))) = Inr True
   \<and> MsgHojaNoExiste ''Q3'' \<in> set (salida (cargar_datos_excel entorno_ejemplo (excel_ejemplo (Some ''Q3''))))"
proof -
  have e: "hojas_enumeradas entorno_ejemplo (excel_ejemplo (Some ''Q3'')) = [''Q1'', ''Q2'']"
    by (simp add: hojas_enumeradas_def entorno_ejemplo_def)
  have n: "nombre_hoja (excel_ejemplo (Some ''Q3'')) = Some ''Q3''"
    by (simp add: excel_ejemplo_def DatasetExcel_init_def)
  have r: "read_excel entorno_ejemplo (ruta_archivo (excel_ejemplo (Some ''Q3''))) (HojaIndice 0) = Inr tabla_ventas"
    by (simp add: entorno_ejemplo_def)
  have pre: "Some ''Q3'' = Some ''Q3'' \<and> ''Q3'' \<noteq> [] \<and> ''Q3'' \<notin> set [''Q1'', ''Q2'']"
    by simp
  from seleccion_de_hoja[of entorno_ejemplo "excel_ejemplo (Some ''Q3'')" "''Q3''", unfolded e n] pre
  have h: "hojas_disponibles (estado (cargar_datos_excel entorno_ejemplo (excel_ejemplo (Some ''Q3'')))) = [''Q1'', ''Q2'']"
    and c: "carga_la_hoja entorno_ejemplo (excel_ejemplo (Some ''Q3'')) (HojaIndice 0)"
    and w: "MsgHojaNoExiste ''Q3'' \<in> set (salida (cargar_datos_excel entorno_ejemplo (excel_ejemplo (Some ''Q3''))))"
    by blast+
  from c have "estado (cargar_datos_excel entorno_ejemplo (excel_ejemplo (Some ''Q3'')))
                 = (con_hojas entorno_ejemplo (excel_ejemplo (Some ''Q3'')))\<lparr>dataframe := Some tabla_ventas, esta_cargado := True\<rparr>"
    and "resultado (cargar_datos_excel entorno_ejemplo (excel_ejemplo (Some ''Q3''))) = Inr True"
    unfolding carga_la_hoja_def r sum.case Let_def validar_ventas_excel by simp_all
  with h r w show ?thesis by simp
qed

section \<open>The loaded flag and the table\<close>

lemma estado_validar: "estado (validar_integridad_datos d) = d"
proof (cases "esta_cargado d")
  case False
  then show ?thesis by (simp add: validar_integridad_datos_def estado_def)
next
  case True
  then show ?thesis
    by (cases "dataframe d") (simp_all add: validar_integridad_datos_def estado_def Let_def)
qed

lemma estado_informacion_basica: "estado (obtener_informacion_basica d) = d"
  by (cases "dataframe d") (simp_all add: obtener_informacion_basica_def estado_def)

lemma estado_resumen: "estado (mostrar_resumen_estadistico describe d) = d"
proof (cases "dataframe d")
  case None
  then show ?thesis by (simp add: mostrar_resumen_estadistico_def estado_def)
next
  case (Some t)
  then show ?thesis
    by (cases "describe t") (simp_all add: mostrar_resumen_estadistico_def estado_def)
qed

lemma estado_verificar: "estado (verificar_columnas_requeridas cs d) = d"
  by (cases "dataframe d") (simp_all add: verificar_columnas_requeridas_def estado_def Let_def)

lemma estado_previsualizar: "estado (previsualizar_estructura n d) = d"
  by (cases "dataframe d") (simp_all add: previsualizar_estructura_def estado_def)

lemma sincronizado_setter: "sincronizado d \<Longrightarrow> sincronizado (estado (dataframe_setter v d))"
  by (cases v) (simp_all add: sincronizado_def dataframe_setter_def estado_def)

lemma sincronizado_limpiar:
  "sincronizado d \<Longrightarrow> sincronizado (estado (limpiar_y_transformar_datos d))"
  using limpiar_forma[of d] by (auto simp: sincronizado_def)

lemma sincronizado_ejecutar_dataset:
  "sincronizado d \<Longrightarrow> sincronizado (ejecutar_dataset env op d)"
  by (cases op)
     (simp_all add: sincronizado_setter sincronizado_limpiar estado_validar
        estado_informacion_basica estado_resumen estado_verificar estado_previsualizar)

lemma sincronizado_cargar_datos_csv:
  "sincronizado d \<Longrightarrow> sincronizado (estado (cargar_datos_csv env d))"
  using cargar_datos_csv_casos[of env d]
  by (auto simp: sincronizado_def antes_de_leer_campos)

lemma sincronizado_cargar_datos_excel:
  "sincronizado d \<Longrightarrow> sincronizado (estado (cargar_datos_excel env d))"
  using cargar_datos_excel_casos[of env d]
  by (auto simp: sincronizado_def con_hojas_campos)

lemma estado_luego_imprimir: "estado (luego (imprimir lineas d) f) = estado (f () d)"
  by (simp add: imprimir_def luego_Inr)

lemma sincronizado_cambiar_parametros_carga:
  assumes "sincronizado d"
  shows "sincronizado (estado (cambiar_parametros_carga env sep cod d))"
proof (cases "verdadero sep \<and> sep \<noteq> attr_separador d")
  case A: True
  let ?d1 = "d\<lparr>attr_separador := sep\<rparr>"
  show ?thesis
  proof (cases "verdadero cod \<and> cod \<noteq> attr_codificacion d")
    case True
    have s2: "sincronizado (?d1\<lparr>attr_codificacion := cod\<rparr>)"
      using assms by (simp add: sincronizado_def)
    have "estado (cambiar_parametros_carga env sep cod d)
            = estado (cargar_datos_csv env (?d1\<lparr>attr_codificacion := cod\<rparr>))"
      using A True by (auto simp: cambiar_parametros_carga_def estado_luego_imprimir)
    with sincronizado_cargar_datos_csv[OF s2, of env] show ?thesis by simp
  next
    case False
    have s2: "sincronizado ?d1" using assms by (simp add: sincronizado_def)
    have "estado (cambiar_parametros_carga env sep cod d) = estado (cargar_datos_csv env ?d1)"
      using A False by (auto simp: cambiar_parametros_carga_def estado_luego_imprimir)
    with sincronizado_cargar_datos_csv[OF s2, of env] show ?thesis by simp
  qed
next
  case A: False
  show ?thesis
  proof (cases "verdadero cod \<and> cod \<noteq> attr_codificacion d")
    case True
    have s2: "sincronizado (d\<lparr>attr_codificacion := cod\<rparr>)"
      using assms by (simp add: sincronizado_def)
    have "estado (cambiar_parametros_carga env sep cod d)
            = estado (cargar_datos_csv env (d\<lparr>attr_codificacion := cod\<rparr>))"
      using A True by (auto simp: cambiar_parametros_carga_def estado_luego_imprimir)
    with sincronizado_cargar_datos_csv[OF s2, of env] show ?thesis by simp
  next
    case False
    have "estado (cambiar_parametros_carga env sep cod d) = d"
      using A False by (auto simp: cambiar_parametros_carga_def estado_def)
    with assms show ?thesis by simp
  qed
qed

lemma sincronizado_cambiar_hoja:
  assumes "sincronizado d"
  shows "sincronizado (estado (cambiar_hoja env nombre d))"
proof (cases "hojas_disponibles d = [] \<or> nombre \<notin> set (hojas_disponibles d)")
  case True
  then have "estado (cambiar_hoja env nombre d) = d"
    by (auto simp: cambiar_hoja_def estado_def)
  with assms show ?thesis by simp
next
  case False
  have s2: "sincronizado (d\<lparr>nombre_hoja := Some nombre\<rparr>)"
    using assms by (simp add: sincronizado_def)
  from False have "estado (cambiar_hoja env nombre d)
                     = estado (cargar_datos_excel env (d\<lparr>nombre_hoja := Some nombre\<rparr>))"
    by (simp add: cambiar_hoja_def estado_luego_imprimir)
  with sincronizado_cargar_datos_excel[OF s2, of env] show ?thesis by simp
qed

lemma sincronizado_ejecutar_csv:
  "sincronizado d \<Longrightarrow> sincronizado (ejecutar_csv env op d)"
proof (cases op)
  case (OpDatasetCSV o1)
  assume "sincronizado d"
  with OpDatasetCSV show ?thesis by (simp add: sincronizado_ejecutar_dataset)
next
  case OpCargarCSV
  assume "sincronizado d"
  with OpCargarCSV show ?thesis by (simp add: sincronizado_cargar_datos_csv)
next
  case (OpCambiarParametros sep cod)
  assume "sincronizado d"
  with OpCambiarParametros show ?thesis by (simp add: sincronizado_cambiar_parametros_carga)
next
  case OpInformacionArchivo
  assume s: "sincronizado d"
  have "estado (mostrar_informacion_archivo d) = d"
    by (simp add: mostrar_informacion_archivo_def estado_def)
  with s OpInformacionArchivo show ?thesis by simp
next
  case (OpExportarCSV ruta sep cod)
  assume s: "sincronizado d"
  have "estado (exportar_con_nuevos_parametros env ruta sep cod d) = d"
    by (auto simp: exportar_con_nuevos_parametros_def estado_def split: option.splits sum.splits)
  with s OpExportarCSV show ?thesis by simp
qed

lemma sincronizado_ejecutar_excel:
  "sincronizado d \<Longrightarrow> sincronizado (ejecutar_excel env op d)"
proof (cases op)
  case (OpDatasetExcel o1)
  assume "sincronizado d"
  with OpDatasetExcel show ?thesis by (simp add: sincronizado_ejecutar_dataset)
next
  case OpCargarExcel
  assume "sincronizado d"
  with OpCargarExcel show ?thesis by (simp add: sincronizado_cargar_datos_excel)
next
  case (OpCambiarHoja nombre)
  assume "sincronizado d"
  with OpCambiarHoja show ?thesis by (simp add: sincronizado_cambiar_hoja)
next
  case OpInformacionHojas
  assume s: "sincronizado d"
  have "estado (mostrar_informacion_hojas d) = d"
    by (simp add: mostrar_informacion_hojas_def estado_def)
  with s OpInformacionHojas show ?thesis by simp
next
  case (OpExportarHoja ruta)
  assume s: "sincronizado d"
  have "estado (exportar_hoja_actual env ruta d) = d"
    by (auto simp: exportar_hoja_actual_def estado_def split: option.splits sum.splits)
  with s OpExportarHoja show ?thesis by simp
qed

lemma sincronizado_historia_csv:
  "sincronizado d \<Longrightarrow> sincronizado (historia_csv ops d)"
  by (induction ops arbitrary: d) (auto simp: sincronizado_ejecutar_csv)

lemma sincronizado_historia_excel:
  "sincronizado d \<Longrightarrow> sincronizado (historia_excel ops d)"
  by (induction ops arbitrary: d) (auto simp: sincronizado_ejecutar_excel)

text \<open>
  Claim C4. After any history of public operations on a new loader, CSV or Excel, each
  in any environment and whether it returned or raised, the loaded flag is true exactly
  when the table is present.
\<close>

theorem esta_cargado_sincronizado:
  "esta_cargado (historia_csv ops (DatasetCSV_init ruta sep cod))
     = (dataframe (historia_csv ops (DatasetCSV_init ruta sep cod)) \<noteq> None)
   \<and> esta_cargado (historia_excel ops' (DatasetExcel_init ruta' hoja))
     = (dataframe (historia_excel ops' (DatasetExcel_init ruta' hoja)) \<noteq> None)"
proof -
  have "sincronizado (DatasetCSV_init ruta sep cod)"
    by (simp add: sincronizado_def DatasetCSV_init_def)
  then have a: "sincronizado (historia_csv ops (DatasetCSV_init ruta sep cod))"
    by (rule sincronizado_historia_csv)
  have "sincronizado (DatasetExcel_init ruta' hoja)"
    by (simp add: sincronizado_def DatasetExcel_init_def)
  then have b: "sincronizado (historia_excel ops' (DatasetExcel_init ruta' hoja))"
    by (rule sincronizado_historia_excel)
  from a b show ?thesis by (simp add: sincronizado_def)
qed

end
